theory Spec2Isabelle
  imports Complex_Main "HOL-Library.AList"
begin

section \<open>Python values and built-ins used by the editor\<close>

text \<open>
  Python floats are modelled as \<^typ>\<open>real\<close> (no rounding, no NaN or infinity), Python
  integers as \<^typ>\<open>int\<close>.  A Python \<open>str\<close> is modelled as the list of its code points,
  restricted to code points below 256, one \<^typ>\<open>char\<close> each.  An exception is a value of
  \<open>py_error\<close>.
\<close>

datatype py_error = ValueError | KeyError | IndexError | AttributeError

text \<open>\<open>int(r)\<close> on a float: truncation towards zero.\<close>

definition py_int :: "real \<Rightarrow> int" where
  "py_int r = (if 0 \<le> r then \<lfloor>r\<rfloor> else \<lceil>r\<rceil>)"

text \<open>Whitespace of \<open>str.strip()\<close> and whitespace skipped by \<open>int(s, base)\<close>.\<close>

definition is_space :: "char \<Rightarrow> bool" where
  "is_space c = (c \<in> set [CHR 0x09, CHR 0x0A, CHR 0x0B, CHR 0x0C, CHR 0x0D,
                             CHR 0x1C, CHR 0x1D, CHR 0x1E, CHR 0x1F, CHR 0x20,
                             CHR 0x85, CHR 0xA0])"

definition is_int_space :: "char \<Rightarrow> bool" where
  "is_int_space c = (c \<in> set [CHR 0x09, CHR 0x0A, CHR 0x0B, CHR 0x0C, CHR 0x0D, CHR 0x20,
                                 CHR 0x85, CHR 0xA0])"

definition strip_with :: "(char \<Rightarrow> bool) \<Rightarrow> string \<Rightarrow> string" where
  "strip_with p s = rev (dropWhile p (rev (dropWhile p s)))"

definition strip :: "string \<Rightarrow> string" where
  "strip s = strip_with is_space s"

definition lstrip :: "string \<Rightarrow> string \<Rightarrow> string" where
  "lstrip chars s = dropWhile (\<lambda>c. c \<in> set chars) s"

text \<open>\<open>s[i:j]\<close> for \<open>0 \<le> i \<le> j\<close>.\<close>

definition slice :: "nat \<Rightarrow> nat \<Rightarrow> 'a list \<Rightarrow> 'a list" where
  "slice i j s = take (j - i) (drop i s)"

text \<open>\<open>s.split(",")\<close>: the pieces between the separators; never an empty list.\<close>

fun split_on :: "char \<Rightarrow> string \<Rightarrow> string list" where
  "split_on sep [] = [[]]"
| "split_on sep (c # cs) =
     (if c = sep then [] # split_on sep cs
      else (case split_on sep cs of
              [] \<Rightarrow> [[c]]
            | p # ps \<Rightarrow> (c # p) # ps))"

text \<open>\<open>sep.join(xs)\<close>.\<close>

fun join :: "string \<Rightarrow> string list \<Rightarrow> string" where
  "join sep [] = []"
| "join sep [x] = x"
| "join sep (x # y # ys) = x @ sep @ join sep (y # ys)"

text \<open>
  \<open>int(s, base)\<close> on text: surrounding whitespace, an optional sign, for base 16 an optional
  \<open>0x\<close> prefix, then digits, where single underscores may separate digits.
\<close>

definition digit_val :: "char \<Rightarrow> nat option" where
  "digit_val c =
     (let n = (of_char c :: nat) in
      if 48 \<le> n \<and> n \<le> 57 then Some (n - 48)
      else if 97 \<le> n \<and> n \<le> 122 then Some (n - 87)
      else if 65 \<le> n \<and> n \<le> 90 then Some (n - 55)
      else None)"

definition digit_in :: "nat \<Rightarrow> char \<Rightarrow> nat option" where
  "digit_in b c = (case digit_val c of
                     None \<Rightarrow> None
                   | Some v \<Rightarrow> if v < b then Some v else None)"

fun parse_digits :: "nat \<Rightarrow> nat \<Rightarrow> string \<Rightarrow> nat option" where
  "parse_digits b acc [] = Some acc"
| "parse_digits b acc [c] =
     (case digit_in b c of None \<Rightarrow> None | Some v \<Rightarrow> Some (acc * b + v))"
| "parse_digits b acc (c # d # ds) =
     (if c = CHR ''_''
      then (case digit_in b d of
              None \<Rightarrow> None
            | Some v \<Rightarrow> parse_digits b (acc * b + v) ds)
      else (case digit_in b c of
              None \<Rightarrow> None
            | Some v \<Rightarrow> parse_digits b (acc * b + v) (d # ds)))"

definition drop_sign :: "string \<Rightarrow> bool \<times> string" where
  "drop_sign s = (case s of
                    [] \<Rightarrow> (False, [])
                  | c # cs \<Rightarrow> if c = CHR ''+'' then (False, cs)
                             else if c = CHR ''-'' then (True, cs)
                             else (False, c # cs))"

definition drop_prefix :: "nat \<Rightarrow> string \<Rightarrow> string" where
  "drop_prefix b s =
     (case s of
        c # x # rest \<Rightarrow>
          if b = 16 \<and> c = CHR ''0'' \<and> (x = CHR ''x'' \<or> x = CHR ''X'')
          then (case rest of
                  [] \<Rightarrow> []
                | u # us \<Rightarrow> if u = CHR ''_'' then us else u # us)
          else s
      | _ \<Rightarrow> s)"

definition int_str :: "nat \<Rightarrow> string \<Rightarrow> py_error + int" where
  "int_str b s =
     (let (neg, t) = drop_sign (strip_with is_int_space s)
      in case drop_prefix b t of
           [] \<Rightarrow> Inl ValueError
         | c # cs \<Rightarrow>
             (case digit_in b c of
                None \<Rightarrow> Inl ValueError
              | Some d \<Rightarrow>
                  (case parse_digits b d cs of
                     None \<Rightarrow> Inl ValueError
                   | Some n \<Rightarrow> Inr (if neg then - int n else int n))))"

text \<open>The format \<open>{n:02X}\<close>: uppercase hexadecimal, zero-padded to two characters.\<close>

definition hexchar :: "nat \<Rightarrow> char" where
  "hexchar n = ''0123456789ABCDEF'' ! n"

fun hex_digits :: "nat \<Rightarrow> string" where
  "hex_digits n =
     (if n < 16 then [hexchar n] else hex_digits (n div 16) @ [hexchar (n mod 16)])"

declare hex_digits.simps [simp del]

definition fmt_02X :: "int \<Rightarrow> string" where
  "fmt_02X n =
     (if n < 0 then CHR ''-'' # hex_digits (nat (- n))
      else (let d = hex_digits (nat n) in replicate (2 - length d) (CHR ''0'') @ d))"

text \<open>
  \<open>s.isdigit()\<close>: not empty, and every character a digit; below code point 256 these are
  \<open>0\<close> to \<open>9\<close> and the superscripts two, three and one.
\<close>

definition is_digit_char :: "char \<Rightarrow> bool" where
  "is_digit_char c =
     (let n = (of_char c :: nat) in (48 \<le> n \<and> n \<le> 57) \<or> n = 178 \<or> n = 179 \<or> n = 185)"

definition isdigit :: "string \<Rightarrow> bool" where
  "isdigit s = (s \<noteq> [] \<and> list_all is_digit_char s)"

text \<open>\<open>str(n)\<close> on an integer.\<close>

fun dec_digits :: "nat \<Rightarrow> string" where
  "dec_digits n =
     (if n < 10 then [char_of (48 + n)] else dec_digits (n div 10) @ [char_of (48 + n mod 10)])"

declare dec_digits.simps [simp del]

definition str_int :: "int \<Rightarrow> string" where
  "str_int n = (if n < 0 then CHR ''-'' # dec_digits (nat (- n)) else dec_digits (nat n))"


section \<open>Colours (gui.py)\<close>

text \<open>A hexadecimal digit, in either case.\<close>

definition is_hex :: "char \<Rightarrow> bool" where
  "is_hex c = (c \<in> set ''0123456789abcdefABCDEF'')"

definition rgb_to_hex :: "real list \<Rightarrow> py_error + string" where
  "rgb_to_hex rgb =
     (case rgb of
        [r, g, b] \<Rightarrow>
          Inr (''#'' @ fmt_02X (py_int (r * 255)) @ fmt_02X (py_int (g * 255))
                     @ fmt_02X (py_int (b * 255)))
      | _ \<Rightarrow> Inl ValueError)"

definition hex_to_rgb :: "string \<Rightarrow> py_error + real list" where
  "hex_to_rgb hex_str0 =
     (let hex_str = lstrip ''#'' hex_str0 in
      if length hex_str \<noteq> 6 then Inr [0, 1, 0]
      else (case int_str 16 (slice 0 2 hex_str) of
              Inl e \<Rightarrow> Inl e
            | Inr r \<Rightarrow>
          (case int_str 16 (slice 2 4 hex_str) of
              Inl e \<Rightarrow> Inl e
            | Inr g \<Rightarrow>
          (case int_str 16 (slice 4 6 hex_str) of
              Inl e \<Rightarrow> Inl e
            | Inr b \<Rightarrow> Inr [real_of_int r / 255, real_of_int g / 255,
                           real_of_int b / 255]))))"


section \<open>Elevation lookup\<close>

text \<open>
  \<open>numpy.argmin\<close> on a one-dimensional array: the index of the first occurrence of the
  minimum; an empty array raises \<open>ValueError\<close> (here \<open>None\<close>).
\<close>

fun argmin_loop :: "real list \<Rightarrow> nat \<Rightarrow> nat \<Rightarrow> real \<Rightarrow> nat" where
  "argmin_loop [] k best_i best_v = best_i"
| "argmin_loop (v # vs) k best_i best_v =
     (if v < best_v then argmin_loop vs (Suc k) k v
      else argmin_loop vs (Suc k) best_i best_v)"

definition argmin :: "real list \<Rightarrow> nat option" where
  "argmin vs = (case vs of [] \<Rightarrow> None | v # rest \<Rightarrow> Some (argmin_loop rest 1 0 v))"

text \<open>\<open>data[i, j]\<close> on a two-dimensional array, for indices that are not negative.\<close>

definition index2 :: "real list list \<Rightarrow> nat \<Rightarrow> nat \<Rightarrow> py_error + real" where
  "index2 data i j =
     (if i < length data \<and> j < length (data ! i) then Inr (data ! i ! j) else Inl IndexError)"

text \<open>
  The three lines shared by both \<open>get_elevation\<close> methods:
  \<^verbatim>\<open>i = np.abs(self.x_coords - x).argmin()\<close>,
  \<^verbatim>\<open>j = np.abs(self.y_coords - y).argmin()\<close>,
  \<^verbatim>\<open>return self.dem_data[i, j]\<close>.
\<close>

definition nearest_sample ::
  "real list \<Rightarrow> real list \<Rightarrow> real list list \<Rightarrow> real \<Rightarrow> real \<Rightarrow> py_error + real" where
  "nearest_sample xs ys data x y =
     (case argmin (map (\<lambda>v. \<bar>v - x\<bar>) xs) of
        None \<Rightarrow> Inl ValueError
      | Some i \<Rightarrow>
          (case argmin (map (\<lambda>v. \<bar>v - y\<bar>) ys) of
             None \<Rightarrow> Inl ValueError
           | Some j \<Rightarrow> index2 data i j))"

text \<open>The loaded terrain: \<open>(x_coords, y_coords, dem_data)\<close>, set together by \<open>setup_dem\<close>.\<close>

type_synonym dem = "real list \<times> real list \<times> real list list"


section \<open>The station map editor (gui.py)\<close>

text \<open>
  Objects handed out by the plotter are recorded by the arguments they were built from:
  a label placed at a point, and a spline through control points with a number of
  subdivisions and a colour.
\<close>

datatype actor =
  Label_actor "real list" string
| Line_actor "real list list" nat "real list"

text \<open>An entry of \<open>self.stations\<close>: \<open>{"name", "coords", "actor"}\<close>.\<close>

record station =
  name :: string
  coords :: "real list"
  actor :: actor

text \<open>An entry of \<open>self.lines\<close>: \<open>{"name", "station_ids", "actor", "color"}\<close>.\<close>

record line =
  line_name :: string
  station_ids :: "string list"
  line_actor :: "actor option"
  color :: "real list"

text \<open>
  A table cell is an item holding text, or no item.  A dictionary is an association list in
  insertion order; \<open>d[k] = v\<close> is \<^const>\<open>AList.update\<close>.
\<close>

type_synonym cell = "string option"
type_synonym station_row = "cell \<times> cell \<times> cell \<times> cell"
type_synonym line_row = "cell \<times> cell \<times> cell"

record gui =
  stations :: "(int \<times> station) list"
  next_station_id :: int
  lines :: "(int \<times> line) list"
  next_line_id :: int
  station_table :: "station_row list"
  line_table :: "line_row list"
  dem :: "dem option"

text \<open>What a handler did: returned, returned after a warning box, or raised.\<close>

datatype outcome = Done | Warned string | Raised py_error

text \<open>\<open>__init__\<close>, with the terrain that \<open>setup_dem\<close> could load (or none).\<close>

definition init :: "dem option \<Rightarrow> gui" where
  "init d = \<lparr>stations = [], next_station_id = 1, lines = [], next_line_id = 1,
             station_table = [], line_table = [], dem = d\<rparr>"

definition clear_all :: "gui \<Rightarrow> gui" where
  "clear_all s = s\<lparr>station_table := [], line_table := [], stations := [], lines := [],
                   next_station_id := 1, next_line_id := 1\<rparr>"

definition get_elevation :: "gui \<Rightarrow> real \<Rightarrow> real \<Rightarrow> py_error + real" where
  "get_elevation s x y =
     (case dem s of
        None \<Rightarrow> Inr 0
      | Some (xs, ys, data) \<Rightarrow> nearest_sample xs ys data x y)"

subsection \<open>station_utils.py and line_utils.py\<close>

text \<open>The inner loop of \<open>lookup_station_coords\<close>, which stops at the first match.\<close>

fun first_match :: "string \<Rightarrow> (int \<times> station) list \<Rightarrow> real list option" where
  "first_match st_name [] = None"
| "first_match st_name ((st_id, st_data) # rest) =
     (if name st_data = st_name then Some (coords st_data) else first_match st_name rest)"

fun lookup_station_coords :: "string list \<Rightarrow> (int \<times> station) list \<Rightarrow> real list list" where
  "lookup_station_coords [] stations_dict = []"
| "lookup_station_coords (st_name # rest) stations_dict =
     (case first_match st_name stations_dict of
        None \<Rightarrow> lookup_station_coords rest stations_dict
      | Some c \<Rightarrow> c # lookup_station_coords rest stations_dict)"

definition build_line_actor :: "real list list \<Rightarrow> real list option \<Rightarrow> actor option" where
  "build_line_actor coords_list color_arg =
     (let color = (case color_arg of None \<Rightarrow> [0, 1, 0] | Some c \<Rightarrow> c) in
      if length coords_list < 2 then None
      else Some (Line_actor coords_list 50 color))"


subsection \<open>Rebuilding the registries from the tables\<close>

text \<open>
  The built-in \<open>float(text)\<close> and the format \<open>{v:.2f}\<close> are parameters of the model:
  \<open>pyfloat\<close> gives \<open>None\<close> where \<open>float\<close> raises \<open>ValueError\<close>, and \<open>fmt2\<close> is
  the formatting.  A handler is a function of the state it finds and of what the user did.
  The signals that Qt sends while a handler itself writes to a table are not part of the
  handler: they run \<open>station_table_cell_changed\<close> or \<open>line_table_cell_changed\<close>,
  which rebuild the registries from the tables as the handler does again at its end.
\<close>

fun refresh_stations_loop ::
  "(string \<Rightarrow> real option) \<Rightarrow> station_row list \<Rightarrow> int \<Rightarrow> (int \<times> station) list
     \<Rightarrow> (int \<times> station) list" where
  "refresh_stations_loop pyfloat [] station_id_counter acc = acc"
| "refresh_stations_loop pyfloat ((name_item, x_item, y_item, z_item) # rows)
       station_id_counter acc =
     (case (name_item, x_item, y_item, z_item) of
        (Some st_name, Some xt, Some yt, Some zt) \<Rightarrow>
          (case (pyfloat xt, pyfloat yt, pyfloat zt) of
             (Some x, Some y, Some z) \<Rightarrow>
               refresh_stations_loop pyfloat rows (station_id_counter + 1)
                 (AList.update station_id_counter
                    \<lparr>name = st_name, coords = [x, y, z],
                     actor = Label_actor [x, y, z] st_name\<rparr> acc)
           | _ \<Rightarrow> refresh_stations_loop pyfloat rows station_id_counter acc)
      | _ \<Rightarrow> refresh_stations_loop pyfloat rows station_id_counter acc)"

definition refresh_stations_on_plot :: "(string \<Rightarrow> real option) \<Rightarrow> gui \<Rightarrow> gui" where
  "refresh_stations_on_plot pyfloat s =
     s\<lparr>stations := refresh_stations_loop pyfloat (station_table s) 1 []\<rparr>"

text \<open>\<^verbatim>\<open>[s.strip() for s in text.split(",") if s.strip()]\<close>\<close>

definition split_names :: "string \<Rightarrow> string list" where
  "split_names text = filter (\<lambda>p. p \<noteq> []) (map strip (split_on (CHR '','') text))"

text \<open>
  The loop of \<open>refresh_lines_on_plot\<close>.  \<open>hex_to_rgb\<close> may raise; the registry then keeps
  the lines entered so far.
\<close>

fun refresh_lines_loop ::
  "(int \<times> station) list \<Rightarrow> line_row list \<Rightarrow> int \<Rightarrow> (int \<times> line) list
     \<Rightarrow> outcome \<times> (int \<times> line) list" where
  "refresh_lines_loop sts [] line_id_counter acc = (Done, acc)"
| "refresh_lines_loop sts ((name_item, stations_item, color_item) # rows) line_id_counter acc =
     (case (name_item, stations_item, color_item) of
        (Some nt, Some st, Some ct) \<Rightarrow>
          (let lname = strip nt; station_names_str = strip st in
           if lname = [] \<or> station_names_str = []
           then refresh_lines_loop sts rows line_id_counter acc
           else
             (let st_names = split_names station_names_str;
                  cs = lookup_station_coords st_names sts in
              if length cs < 2 then refresh_lines_loop sts rows line_id_counter acc
              else
                (case hex_to_rgb (strip ct) of
                   Inl e \<Rightarrow> (Raised e, acc)
                 | Inr col \<Rightarrow>
                     refresh_lines_loop sts rows (line_id_counter + 1)
                       (AList.update line_id_counter
                          \<lparr>line_name = lname, station_ids = st_names,
                           line_actor = build_line_actor cs (Some col), color = col\<rparr> acc))))
      | _ \<Rightarrow> refresh_lines_loop sts rows line_id_counter acc)"

definition refresh_lines_on_plot :: "gui \<Rightarrow> outcome \<times> gui" where
  "refresh_lines_on_plot s =
     (case refresh_lines_loop (stations s) (line_table s) 1 [] of
        (r, ls) \<Rightarrow> (r, s\<lparr>lines := ls\<rparr>))"

subsection \<open>Handlers\<close>

definition point_picked ::
  "(string \<Rightarrow> real option) \<Rightarrow> (real \<Rightarrow> string) \<Rightarrow> gui \<Rightarrow> (real \<times> real \<times> real) option
     \<Rightarrow> outcome \<times> gui" where
  "point_picked pyfloat fmt2 s point =
     (case point of
        None \<Rightarrow> (Done, s)
      | Some (x, y, _) \<Rightarrow>
          (case get_elevation s x y of
             Inl e \<Rightarrow> (Raised e, s)
           | Inr z \<Rightarrow>
               (let nm = ''Station '' @ str_int (next_station_id s);
                    s1 = s\<lparr>next_station_id := next_station_id s + 1\<rparr>;
                    s2 = s1\<lparr>station_table := station_table s1 @
                              [(Some nm, Some (fmt2 x), Some (fmt2 y), Some (fmt2 z))]\<rparr>
                in refresh_lines_on_plot (refresh_stations_on_plot pyfloat s2))))"

text \<open>\<open>table.item(row, column)\<close> of the station table; no item outside the table.\<close>

definition station_item :: "station_row list \<Rightarrow> nat \<Rightarrow> nat \<Rightarrow> cell" where
  "station_item t row column =
     (if row < length t
      then (case t ! row of
              (c0, c1, c2, c3) \<Rightarrow>
                if column = 0 then c0 else if column = 1 then c1
                else if column = 2 then c2 else if column = 3 then c3 else None)
      else None)"

definition set_z_item :: "station_row list \<Rightarrow> nat \<Rightarrow> string \<Rightarrow> station_row list" where
  "set_z_item t row text =
     (if row < length t
      then t[row := (case t ! row of (c0, c1, c2, c3) \<Rightarrow> (c0, c1, c2, Some text))]
      else t)"

definition station_table_cell_changed ::
  "(string \<Rightarrow> real option) \<Rightarrow> (real \<Rightarrow> string) \<Rightarrow> gui \<Rightarrow> nat \<Rightarrow> nat \<Rightarrow> outcome \<times> gui" where
  "station_table_cell_changed pyfloat fmt2 s row column =
     (case (station_item (station_table s) row 1, station_item (station_table s) row 2) of
        (Some xt, Some yt) \<Rightarrow>
          if column = 1 \<or> column = 2
          then (case (pyfloat xt, pyfloat yt) of
                  (Some x, Some y) \<Rightarrow>
                    (case get_elevation s x y of
                       Inl e \<Rightarrow> (Raised e, s)
                     | Inr z \<Rightarrow>
                         refresh_lines_on_plot
                           (refresh_stations_on_plot pyfloat
                              (s\<lparr>station_table := set_z_item (station_table s) row (fmt2 z)\<rparr>)))
                | _ \<Rightarrow> (Done, s))
          else refresh_lines_on_plot (refresh_stations_on_plot pyfloat s)
      | _ \<Rightarrow> (Done, s))"

text \<open>\<open>table.removeRow(row)\<close>.\<close>

definition remove_row :: "nat \<Rightarrow> 'a list \<Rightarrow> 'a list" where
  "remove_row row t = take row t @ drop (Suc row) t"

text \<open>\<open>selected\<close> is the top row of the first selected range, if any row is selected.\<close>

definition delete_station :: "(string \<Rightarrow> real option) \<Rightarrow> gui \<Rightarrow> nat option \<Rightarrow> outcome \<times> gui" where
  "delete_station pyfloat s selected =
     (case selected of
        None \<Rightarrow> (Warned ''Select a station row to delete.'', s)
      | Some row \<Rightarrow>
          refresh_lines_on_plot
            (refresh_stations_on_plot pyfloat
               (s\<lparr>station_table := remove_row row (station_table s)\<rparr>)))"

definition line_table_cell_changed :: "gui \<Rightarrow> outcome \<times> gui" where
  "line_table_cell_changed s = refresh_lines_on_plot s"

text \<open>
  \<open>dlg\<close> is what the line dialog returned when accepted: name, selected station names in
  order, colour; \<open>None\<close> when the dialog was cancelled.
\<close>

definition add_line :: "gui \<Rightarrow> (string \<times> string list \<times> real list) option \<Rightarrow> outcome \<times> gui" where
  "add_line s dlg =
     (if length (stations s) < 2 then (Warned ''Need at least two stations.'', s)
      else (case dlg of
              None \<Rightarrow> (Done, s)
            | Some (nm, ids, col) \<Rightarrow>
                (case rgb_to_hex col of
                   Inl e \<Rightarrow>
                     (Raised e,
                      s\<lparr>line_table := line_table s @ [(Some nm, Some (join '', '' ids), None)]\<rparr>)
                 | Inr h \<Rightarrow>
                     refresh_lines_on_plot
                       (s\<lparr>line_table := line_table s @
                            [(Some nm, Some (join '', '' ids), Some h)]\<rparr>))))"

definition delete_line :: "gui \<Rightarrow> nat option \<Rightarrow> outcome \<times> gui" where
  "delete_line s selected =
     (case selected of
        None \<Rightarrow> (Warned ''Select a line row to delete.'', s)
      | Some row \<Rightarrow> refresh_lines_on_plot (s\<lparr>line_table := remove_row row (line_table s)\<rparr>))"

text \<open>\<open>load_station_data\<close> and \<open>load_line_data\<close>, on records already read as text.\<close>

definition load_station_data :: "gui \<Rightarrow> (string \<times> string \<times> string \<times> string) list \<Rightarrow> gui" where
  "load_station_data s station_data =
     s\<lparr>station_table := map (\<lambda>(n, x, y, z). (Some n, Some x, Some y, Some z)) station_data,
       next_station_id := int (length station_data) + 1\<rparr>"

definition load_line_data :: "gui \<Rightarrow> (string \<times> string \<times> string) list \<Rightarrow> gui" where
  "load_line_data s line_data =
     s\<lparr>line_table := map (\<lambda>(n, sts, c). (Some n, Some sts, Some c)) line_data,
       next_line_id := int (length line_data) + 1\<rparr>"


text \<open>\<open>table.item(row, column)\<close> of the line table; no item outside the table.\<close>

definition line_item :: "line_row list \<Rightarrow> nat \<Rightarrow> nat \<Rightarrow> cell" where
  "line_item t row column =
     (if row < length t
      then (case t ! row of
              (c0, c1, c2) \<Rightarrow>
                if column = 0 then c0 else if column = 1 then c1
                else if column = 2 then c2 else None)
      else None)"

definition edit_line ::
  "gui \<Rightarrow> nat option \<Rightarrow> (string \<times> string list \<times> real list) option \<Rightarrow> outcome \<times> gui" where
  "edit_line s selected dlg =
     (case selected of
        None \<Rightarrow> (Warned ''Select a line row to edit.'', s)
      | Some row \<Rightarrow>
          (case (line_item (line_table s) row 0, line_item (line_table s) row 1,
                 line_item (line_table s) row 2) of
             (Some nt, Some st, Some ct) \<Rightarrow>
               (case hex_to_rgb (strip ct) of
                  Inl e \<Rightarrow> (Raised e, s)
                | Inr current_color \<Rightarrow>
                    (case dlg of
                       None \<Rightarrow> (Done, s)
                     | Some (nm, ids, col) \<Rightarrow>
                         (case rgb_to_hex col of
                            Inl e \<Rightarrow>
                              (Raised e,
                               s\<lparr>line_table :=
                                    (line_table s)[row := (Some nm, Some (join '', '' ids),
                                                           Some ct)]\<rparr>)
                          | Inr h \<Rightarrow>
                              refresh_lines_on_plot
                                (s\<lparr>line_table :=
                                     (line_table s)[row := (Some nm, Some (join '', '' ids),
                                                            Some h)]\<rparr>))))
           | _ \<Rightarrow> (Done, s)))"

text \<open>
  \<open>import_data\<close>: \<open>loaded\<close> is what \<open>io.import_data\<close> read, \<open>None\<close> when no file was
  chosen or reading failed.  An exception after loading is caught and shown.
\<close>

definition import_data ::
  "(string \<Rightarrow> real option) \<Rightarrow> gui
     \<Rightarrow> ((string \<times> string \<times> string \<times> string) list \<times> (string \<times> string \<times> string) list) option
     \<Rightarrow> outcome \<times> gui" where
  "import_data pyfloat s loaded =
     (case loaded of
        None \<Rightarrow> (Done, s)
      | Some (station_data, line_data) \<Rightarrow>
          (case refresh_lines_on_plot
                  (refresh_stations_on_plot pyfloat
                     (load_line_data (load_station_data s station_data) line_data)) of
             (Raised e, s') \<Rightarrow> (Warned ''Import Data Error'', s')
           | (r, s') \<Rightarrow> (r, s')))"

text \<open>\<open>load_new_dem\<close>: \<open>loaded\<close> is the terrain read from the chosen file, if any.\<close>

definition load_new_dem :: "(string \<Rightarrow> real option) \<Rightarrow> gui \<Rightarrow> dem option \<Rightarrow> outcome \<times> gui" where
  "load_new_dem pyfloat s loaded =
     (case loaded of
        None \<Rightarrow> (Done, s)
      | Some d \<Rightarrow> refresh_lines_on_plot (refresh_stations_on_plot pyfloat (s\<lparr>dem := Some d\<rparr>)))"

subsection \<open>A session\<close>

text \<open>
  What the user can do.  Typing into a table cell stores the text and then runs the
  handler of the table's \<open>cellChanged\<close> signal.
\<close>

datatype event =
  Pick "(real \<times> real \<times> real) option"
| Edit_station_cell nat nat string
| Delete_station "nat option"
| Edit_line_cell nat nat string
| Add_line "(string \<times> string list \<times> real list) option"
| Edit_line "nat option" "(string \<times> string list \<times> real list) option"
| Delete_line "nat option"
| Clear_all
| Import_data
    "((string \<times> string \<times> string \<times> string) list \<times> (string \<times> string \<times> string) list) option"
| Load_new_dem "dem option"

definition set_station_item :: "station_row list \<Rightarrow> nat \<Rightarrow> nat \<Rightarrow> string \<Rightarrow> station_row list" where
  "set_station_item t row column text =
     (if row < length t
      then t[row := (case t ! row of
                       (c0, c1, c2, c3) \<Rightarrow>
                         if column = 0 then (Some text, c1, c2, c3)
                         else if column = 1 then (c0, Some text, c2, c3)
                         else if column = 2 then (c0, c1, Some text, c3)
                         else if column = 3 then (c0, c1, c2, Some text)
                         else (c0, c1, c2, c3))]
      else t)"

definition set_line_item :: "line_row list \<Rightarrow> nat \<Rightarrow> nat \<Rightarrow> string \<Rightarrow> line_row list" where
  "set_line_item t row column text =
     (if row < length t
      then t[row := (case t ! row of
                       (c0, c1, c2) \<Rightarrow>
                         if column = 0 then (Some text, c1, c2)
                         else if column = 1 then (c0, Some text, c2)
                         else if column = 2 then (c0, c1, Some text)
                         else (c0, c1, c2))]
      else t)"

definition handle ::
  "(string \<Rightarrow> real option) \<Rightarrow> (real \<Rightarrow> string) \<Rightarrow> gui \<Rightarrow> event \<Rightarrow> outcome \<times> gui" where
  "handle pyfloat fmt2 s ev =
     (case ev of
        Pick point \<Rightarrow> point_picked pyfloat fmt2 s point
      | Edit_station_cell row column text \<Rightarrow>
          station_table_cell_changed pyfloat fmt2
            (s\<lparr>station_table := set_station_item (station_table s) row column text\<rparr>)
            row column
      | Delete_station selected \<Rightarrow> delete_station pyfloat s selected
      | Edit_line_cell row column text \<Rightarrow>
          line_table_cell_changed
            (s\<lparr>line_table := set_line_item (line_table s) row column text\<rparr>)
      | Add_line dlg \<Rightarrow> add_line s dlg
      | Edit_line selected dlg \<Rightarrow> edit_line s selected dlg
      | Delete_line selected \<Rightarrow> delete_line s selected
      | Clear_all \<Rightarrow> (Done, clear_all s)
      | Import_data loaded \<Rightarrow> import_data pyfloat s loaded
      | Load_new_dem loaded \<Rightarrow> load_new_dem pyfloat s loaded)"

text \<open>The state after a sequence of events, from the state that \<open>__init__\<close> builds.\<close>

definition run ::
  "(string \<Rightarrow> real option) \<Rightarrow> (real \<Rightarrow> string) \<Rightarrow> dem option \<Rightarrow> event list \<Rightarrow> gui" where
  "run pyfloat fmt2 d evs = fold (\<lambda>ev s. snd (handle pyfloat fmt2 s ev)) evs (init d)"



section \<open>The id-keyed editor (mountain.py)\<close>

text \<open>
  An entry of \<open>self.stations\<close>: \<open>{"coords", "actor"}\<close>; an entry of
  \<open>self.train_lines\<close>: \<open>{"station_ids", "actor", "color"}\<close>.  Names of this file carry
  the suffix \<open>_m\<close> where gui.py uses the same name.
\<close>

record station_m =
  coords_m :: "real list"
  actor_m :: actor

record line_m =
  station_ids_m :: "int list"
  line_actor_m :: actor
  color_m :: "real list"

text \<open>
  The attributes \<open>x_coords\<close>, \<open>y_coords\<close> and \<open>dem_data\<close> exist only once \<open>setup_dem\<close>
  has loaded a terrain.
\<close>

record mountain =
  stations_m :: "(int \<times> station_m) list"
  train_lines :: "(int \<times> line_m) list"
  next_station_id_m :: int
  next_line_id_m :: int
  dem_m :: "dem option"

definition init_m :: "dem option \<Rightarrow> mountain" where
  "init_m d = \<lparr>stations_m = [], train_lines = [], next_station_id_m = 1, next_line_id_m = 0,
               dem_m = d\<rparr>"

definition get_elevation_m :: "mountain \<Rightarrow> real \<Rightarrow> real \<Rightarrow> py_error + real" where
  "get_elevation_m s x y =
     (case dem_m s of
        None \<Rightarrow> Inl AttributeError
      | Some (xs, ys, data) \<Rightarrow> nearest_sample xs ys data x y)"


subsection \<open>Dictionary access\<close>

text \<open>\<open>k in d\<close> and \<open>del d[k]\<close> on an association list.\<close>

definition has_key :: "('k \<times> 'v) list \<Rightarrow> 'k \<Rightarrow> bool" where
  "has_key d k = (map_of d k \<noteq> None)"

text \<open>
  \<^verbatim>\<open>[self.stations[sid]["coords"] for sid in ids]\<close>: \<open>None\<close> is the \<open>KeyError\<close> of
  an id that is not a station.
\<close>

definition coords_of :: "(int \<times> station_m) list \<Rightarrow> int list \<Rightarrow> real list list option" where
  "coords_of sts ids = those (map (\<lambda>sid. map_option coords_m (map_of sts sid)) ids)"

text \<open>\<^verbatim>\<open>[self.stations[sid]["coords"] for sid in ids if sid in self.stations]\<close>\<close>

definition known_coords :: "(int \<times> station_m) list \<Rightarrow> int list \<Rightarrow> real list list" where
  "known_coords sts ids = List.map_filter (\<lambda>sid. map_option coords_m (map_of sts sid)) ids"

subsection \<open>Lines\<close>

definition update_line_actor :: "mountain \<Rightarrow> int \<Rightarrow> outcome \<times> mountain" where
  "update_line_actor s lid =
     (case map_of (train_lines s) lid of
        None \<Rightarrow> (Raised KeyError, s)
      | Some entry \<Rightarrow>
          if length (station_ids_m entry) < 2 then (Done, s)
          else (let points = known_coords (stations_m s) (station_ids_m entry) in
                (Done, s\<lparr>train_lines :=
                           AList.update lid
                             (entry\<lparr>line_actor_m := Line_actor points 100 (color_m entry)\<rparr>)
                             (train_lines s)\<rparr>)))"

fun update_lines_loop :: "int list \<Rightarrow> mountain \<Rightarrow> outcome \<times> mountain" where
  "update_lines_loop [] s = (Done, s)"
| "update_lines_loop (lid # lids) s =
     (case update_line_actor s lid of
        (Raised e, s') \<Rightarrow> (Raised e, s')
      | (_, s') \<Rightarrow> update_lines_loop lids s')"

definition update_all_lines :: "mountain \<Rightarrow> outcome \<times> mountain" where
  "update_all_lines s = update_lines_loop (map fst (train_lines s)) s"

definition delete_line_by_id :: "mountain \<Rightarrow> int \<Rightarrow> mountain" where
  "delete_line_by_id s lid =
     (if has_key (train_lines s) lid
      then s\<lparr>train_lines := AList.delete lid (train_lines s)\<rparr>
      else s)"

subsection \<open>Handlers\<close>

text \<open>
  The tables of mountain.py only display the registries.  A handler that reads a table
  takes the cells it reads as arguments.  A signal that Qt sends while a handler writes to
  a table runs \<open>station_cell_changed\<close> or \<open>line_cell_changed\<close>; in a session that
  is one more event.
\<close>

definition point_picked_m :: "mountain \<Rightarrow> (real \<times> real \<times> real) option \<Rightarrow> outcome \<times> mountain" where
  "point_picked_m s point =
     (case point of
        None \<Rightarrow> (Done, s)
      | Some (x, y, _) \<Rightarrow>
          (case get_elevation_m s x y of
             Inl e \<Rightarrow> (Raised e, s)
           | Inr z \<Rightarrow>
               (let sid = next_station_id_m s in
                (Done, s\<lparr>next_station_id_m := sid + 1,
                         stations_m :=
                           AList.update sid
                             \<lparr>coords_m = [x, y, z],
                              actor_m = Label_actor [x, y, z] (''Station '' @ str_int sid)\<rparr>
                             (stations_m s)\<rparr>))))"

text \<open>
  \<open>station_cell_changed(row, column)\<close>; \<open>sid_item\<close>, \<open>x_item\<close>, \<open>y_item\<close> are the
  cells of columns 0, 1, 2 of the row.
\<close>

definition station_cell_changed ::
  "(string \<Rightarrow> real option) \<Rightarrow> mountain \<Rightarrow> nat \<Rightarrow> cell \<Rightarrow> cell \<Rightarrow> cell \<Rightarrow> outcome \<times> mountain" where
  "station_cell_changed pyfloat s column sid_item x_item y_item =
     (if column \<noteq> 1 \<and> column \<noteq> 2 then (Done, s)
      else (case (sid_item, x_item, y_item) of
              (Some st, Some xt, Some yt) \<Rightarrow>
                (case (int_str 10 st, pyfloat xt, pyfloat yt) of
                   (Inr sid, Some x, Some y) \<Rightarrow>
                     (case get_elevation_m s x y of
                        Inl e \<Rightarrow> (Raised e, s)
                      | Inr new_z \<Rightarrow>
                          if has_key (stations_m s) sid
                          then update_all_lines
                                 (s\<lparr>stations_m :=
                                      AList.update sid
                                        \<lparr>coords_m = [x, y, new_z],
                                         actor_m = Label_actor [x, y, new_z]
                                                     (''Station '' @ str_int sid)\<rparr>
                                        (stations_m s)\<rparr>)
                          else (Raised KeyError, s))
                 | _ \<Rightarrow> (Done, s))
            | _ \<Rightarrow> (Done, s)))"

text \<open>
  The loop of \<open>delete_station\<close> over the lines: \<open>list.remove\<close> takes out the first
  occurrence of \<open>sid\<close>.
\<close>

fun delete_station_loop ::
  "int \<Rightarrow> int list \<Rightarrow> mountain \<Rightarrow> int list \<Rightarrow> outcome \<times> mountain \<times> int list" where
  "delete_station_loop sid [] s to_remove = (Done, s, to_remove)"
| "delete_station_loop sid (lid # lids) s to_remove =
     (case map_of (train_lines s) lid of
        None \<Rightarrow> delete_station_loop sid lids s to_remove
      | Some entry \<Rightarrow>
          if sid \<in> set (station_ids_m entry)
          then (let entry' = entry\<lparr>station_ids_m := remove1 sid (station_ids_m entry)\<rparr>;
                    s' = s\<lparr>train_lines := AList.update lid entry' (train_lines s)\<rparr>
                in if length (station_ids_m entry') < 2
                   then delete_station_loop sid lids s' (to_remove @ [lid])
                   else (case update_line_actor s' lid of
                           (Raised e, s'') \<Rightarrow> (Raised e, s'', to_remove)
                         | (_, s'') \<Rightarrow> delete_station_loop sid lids s'' to_remove))
          else delete_station_loop sid lids s to_remove)"

text \<open>\<open>selected\<close> is the text of column 0 of the selected row, if a row is selected.\<close>

definition delete_station_m :: "mountain \<Rightarrow> string option \<Rightarrow> outcome \<times> mountain" where
  "delete_station_m s selected =
     (case selected of
        None \<Rightarrow> (Warned ''Select a station row to delete.'', s)
      | Some sid_text \<Rightarrow>
          (case int_str 10 sid_text of
             Inl e \<Rightarrow> (Raised e, s)
           | Inr sid \<Rightarrow>
               (let s1 = (if has_key (stations_m s) sid
                          then s\<lparr>stations_m := AList.delete sid (stations_m s)\<rparr>
                          else s)
                in case delete_station_loop sid (map fst (train_lines s1)) s1 [] of
                     (Raised e, s2, _) \<Rightarrow> (Raised e, s2)
                   | (_, s2, to_remove) \<Rightarrow>
                       (Done, fold (\<lambda>lid st. delete_line_by_id st lid) to_remove s2))))"

text \<open>
  \<open>dlg\<close> is the list of ids selected in the dialog, \<open>None\<close> when it was cancelled;
  \<open>col\<close> is the random colour.
\<close>

definition add_line_m :: "mountain \<Rightarrow> int list option \<Rightarrow> real list \<Rightarrow> outcome \<times> mountain" where
  "add_line_m s dlg col =
     (if length (stations_m s) < 2
      then (Warned ''At least two stations are needed to create a train line.'', s)
      else (case dlg of
              None \<Rightarrow> (Done, s)
            | Some selected_ids \<Rightarrow>
                if length selected_ids < 2
                then (Warned ''Select at least two stations.'', s)
                else (case coords_of (stations_m s) selected_ids of
                        None \<Rightarrow> (Raised KeyError, s)
                      | Some points \<Rightarrow>
                          (let lid = next_line_id_m s in
                           (Done, s\<lparr>next_line_id_m := lid + 1,
                                    train_lines :=
                                      AList.update lid
                                        \<lparr>station_ids_m = selected_ids,
                                         line_actor_m = Line_actor points 100 col,
                                         color_m = col\<rparr>
                                        (train_lines s)\<rparr>)))))"

definition edit_line_m :: "mountain \<Rightarrow> string option \<Rightarrow> int list option \<Rightarrow> outcome \<times> mountain" where
  "edit_line_m s selected dlg =
     (case selected of
        None \<Rightarrow> (Warned ''Select a train line row to edit.'', s)
      | Some lid_text \<Rightarrow>
          (case int_str 10 lid_text of
             Inl e \<Rightarrow> (Raised e, s)
           | Inr lid \<Rightarrow>
               if stations_m s \<noteq> [] \<and> \<not> has_key (train_lines s) lid then (Raised KeyError, s)
               else (case dlg of
                       None \<Rightarrow> (Done, s)
                     | Some new_station_ids \<Rightarrow>
                         if length new_station_ids < 2
                         then (Warned ''At least two stations are needed for a line.'', s)
                         else (case map_of (train_lines s) lid of
                                 None \<Rightarrow> (Raised KeyError, s)
                               | Some entry \<Rightarrow>
                                   (case coords_of (stations_m s) new_station_ids of
                                      None \<Rightarrow> (Raised KeyError, s)
                                    | Some points \<Rightarrow>
                                        (Done, s\<lparr>train_lines :=
                                                   AList.update lid
                                                     (entry\<lparr>station_ids_m := new_station_ids,
                                                         line_actor_m :=
                                                           Line_actor points 100 (color_m entry)\<rparr>)
                                                     (train_lines s)\<rparr>))))))"

definition delete_line_m :: "mountain \<Rightarrow> string option \<Rightarrow> outcome \<times> mountain" where
  "delete_line_m s selected =
     (case selected of
        None \<Rightarrow> (Warned ''Select a train line row to delete.'', s)
      | Some lid_text \<Rightarrow>
          (case int_str 10 lid_text of
             Inl e \<Rightarrow> (Raised e, s)
           | Inr lid \<Rightarrow> (Done, delete_line_by_id s lid)))"

text \<open>
  \<^verbatim>\<open>[int(x.strip()) for x in text.split(",") if x.strip().isdigit()]\<close>: \<open>None\<close> when
  an \<open>int\<close> raises.
\<close>

definition digit_entries :: "string \<Rightarrow> string list" where
  "digit_entries text = filter isdigit (map strip (split_on (CHR '','') text))"

definition parse_ids :: "string \<Rightarrow> int list option" where
  "parse_ids text =
     those (map (\<lambda>p. case int_str 10 p of Inl _ \<Rightarrow> None | Inr n \<Rightarrow> Some n)
                (digit_entries text))"

text \<open>
  \<open>line_cell_changed(row, column)\<close>; \<open>lid_item\<close> and \<open>text_item\<close> are the cells of
  columns 0 and 1 of the row.  Every exception is caught and printed.
\<close>

definition line_cell_changed ::
  "mountain \<Rightarrow> nat \<Rightarrow> cell \<Rightarrow> cell \<Rightarrow> outcome \<times> mountain" where
  "line_cell_changed s column lid_item text_item =
     (if column \<noteq> 1 then (Done, s)
      else (case (lid_item, text_item) of
              (Some lt, Some text) \<Rightarrow>
                (case int_str 10 lt of
                   Inl _ \<Rightarrow> (Done, s)
                 | Inr lid \<Rightarrow>
                     (case parse_ids text of
                        None \<Rightarrow> (Done, s)
                      | Some new_ids \<Rightarrow>
                          if length new_ids < 2
                          then (Warned ''A line must have at least two stations.'', s)
                          else (case map_of (train_lines s) lid of
                                  None \<Rightarrow> (Done, s)
                                | Some entry \<Rightarrow>
                                    (Done,
                                     snd (update_line_actor
                                            (s\<lparr>train_lines :=
                                                 AList.update lid
                                                   (entry\<lparr>station_ids_m := new_ids\<rparr>)
                                                   (train_lines s)\<rparr>)
                                            lid)))))
            | _ \<Rightarrow> (Done, s)))"


subsection \<open>A session\<close>

datatype event_m =
  Pick_m "(real \<times> real \<times> real) option"
| Station_cell_changed nat cell cell cell
| Delete_station_m "string option"
| Add_line_m "int list option" "real list"
| Edit_line_m "string option" "int list option"
| Delete_line_m "string option"
| Line_cell_changed nat cell cell

definition handle_m :: "(string \<Rightarrow> real option) \<Rightarrow> mountain \<Rightarrow> event_m \<Rightarrow> outcome \<times> mountain" where
  "handle_m pyfloat s ev =
     (case ev of
        Pick_m point \<Rightarrow> point_picked_m s point
      | Station_cell_changed column sid_item x_item y_item \<Rightarrow>
          station_cell_changed pyfloat s column sid_item x_item y_item
      | Delete_station_m selected \<Rightarrow> delete_station_m s selected
      | Add_line_m dlg col \<Rightarrow> add_line_m s dlg col
      | Edit_line_m selected dlg \<Rightarrow> edit_line_m s selected dlg
      | Delete_line_m selected \<Rightarrow> delete_line_m s selected
      | Line_cell_changed column lid_item text_item \<Rightarrow>
          line_cell_changed s column lid_item text_item)"

definition run_m :: "(string \<Rightarrow> real option) \<Rightarrow> dem option \<Rightarrow> event_m list \<Rightarrow> mountain" where
  "run_m pyfloat d evs = fold (\<lambda>ev s. snd (handle_m pyfloat s ev)) evs (init_m d)"



section \<open>Example states\<close>

text \<open>
  A small terrain, and the state of each editor after three stations were picked on it and
  one line through all three was created.
\<close>

definition example_dem :: dem where
  "example_dem = ([0, 10, 20], [0, 5], [[1, 2], [3, 4], [5, 6]])"

definition example_gui :: gui where
  "example_gui =
     \<lparr>stations =
        [(1, \<lparr>name = ''Station 1'', coords = [10, 5, 4],
               actor = Label_actor [10, 5, 4] ''Station 1''\<rparr>),
         (2, \<lparr>name = ''Station 2'', coords = [20, 0, 5],
               actor = Label_actor [20, 0, 5] ''Station 2''\<rparr>),
         (3, \<lparr>name = ''Station 3'', coords = [0, 0, 1],
               actor = Label_actor [0, 0, 1] ''Station 3''\<rparr>)],
      next_station_id = 4,
      lines =
        [(1, \<lparr>line_name = ''L'',
               station_ids = [''Station 1'', ''Station 2'', ''Station 3''],
               line_actor = Some (Line_actor [[10, 5, 4], [20, 0, 5], [0, 0, 1]] 50 [1, 0, 0]),
               color = [1, 0, 0]\<rparr>)],
      next_line_id = 1,
      station_table =
        [(Some ''Station 1'', Some ''10.00'', Some ''5.00'', Some ''4.00''),
         (Some ''Station 2'', Some ''20.00'', Some ''0.00'', Some ''5.00''),
         (Some ''Station 3'', Some ''0.00'', Some ''0.00'', Some ''1.00'')],
      line_table = [(Some ''L'', Some ''Station 1, Station 2, Station 3'', Some ''#FF0000'')],
      dem = Some example_dem\<rparr>"

definition example_mountain :: mountain where
  "example_mountain =
     \<lparr>stations_m =
        [(1, \<lparr>coords_m = [10, 5, 4], actor_m = Label_actor [10, 5, 4] ''Station 1''\<rparr>),
         (2, \<lparr>coords_m = [20, 0, 5], actor_m = Label_actor [20, 0, 5] ''Station 2''\<rparr>),
         (3, \<lparr>coords_m = [0, 0, 1], actor_m = Label_actor [0, 0, 1] ''Station 3''\<rparr>)],
      train_lines =
        [(0, \<lparr>station_ids_m = [1, 2, 3],
               line_actor_m = Line_actor [[10, 5, 4], [20, 0, 5], [0, 0, 1]] 100 [1, 0, 0],
               color_m = [1, 0, 0]\<rparr>)],
      next_station_id_m = 4, next_line_id_m = 1,
      dem_m = Some example_dem\<rparr>"


text \<open>
  For examples: a stand-in for \<open>float\<close> that reads unsigned decimal numbers such as
  \<open>10.00\<close>, a stand-in for the format \<open>{v:.2f}\<close> that is right on whole numbers,
  and the station map editor after the user typed \<open>abc\<close> into the x cell of the first
  station.
\<close>

definition example_float :: "string \<Rightarrow> real option" where
  "example_float t =
     (case split_on (CHR ''.'') t of
        [a] \<Rightarrow> (case int_str 10 a of Inl _ \<Rightarrow> None | Inr n \<Rightarrow> Some (real_of_int n))
      | [a, b] \<Rightarrow>
          (case (int_str 10 a, int_str 10 b) of
             (Inr n, Inr f) \<Rightarrow>
               if 0 \<le> n \<and> 0 \<le> f then Some (real_of_int n + real_of_int f / 10 ^ length b)
               else None
           | _ \<Rightarrow> None)
      | _ \<Rightarrow> None)"

definition example_fmt :: "real \<Rightarrow> string" where
  "example_fmt r = str_int \<lfloor>r\<rfloor> @ ''.00''"

definition example_edited_gui :: gui where
  "example_edited_gui =
     example_gui\<lparr>station_table := set_station_item (station_table example_gui) 0 1 ''abc''\<rparr>"



section \<open>Notions used in the properties\<close>

text \<open>The ids of a registry are its positions, counted from 1.\<close>

definition dense_ids :: "(int \<times> 'a) list \<Rightarrow> bool" where
  "dense_ids d = (map fst d = map (\<lambda>i. 1 + int i) [0..<length d])"

definition inv_g :: "gui \<Rightarrow> bool" where
  "inv_g s = (dense_ids (stations s) \<and> dense_ids (lines s))"

text \<open>
  From one state of mountain.py to a later one: the counters do not go down, an id in a
  registry was there before or was taken from the counter in between, and keys stay
  distinct.
\<close>

definition grows :: "mountain \<Rightarrow> mountain \<Rightarrow> bool" where
  "grows s s' =
     (next_station_id_m s \<le> next_station_id_m s' \<and> next_line_id_m s \<le> next_line_id_m s'
      \<and> (\<forall>k. has_key (stations_m s') k \<longrightarrow>
             has_key (stations_m s) k \<or> (next_station_id_m s \<le> k \<and> k < next_station_id_m s'))
      \<and> (\<forall>k. has_key (train_lines s') k \<longrightarrow>
             has_key (train_lines s) k \<or> (next_line_id_m s \<le> k \<and> k < next_line_id_m s'))
      \<and> (distinct (map fst (stations_m s)) \<longrightarrow> distinct (map fst (stations_m s')))
      \<and> (distinct (map fst (train_lines s)) \<longrightarrow> distinct (map fst (train_lines s'))))"

text \<open>Every id in a registry of mountain.py is below the registry's counter.\<close>

definition inv_m :: "mountain \<Rightarrow> bool" where
  "inv_m s =
     ((\<forall>k. has_key (stations_m s) k \<longrightarrow> k < next_station_id_m s)
      \<and> (\<forall>k. has_key (train_lines s) k \<longrightarrow> k < next_line_id_m s)
      \<and> distinct (map fst (stations_m s)) \<and> distinct (map fst (train_lines s)))"


text \<open>
  What the loop of \<open>delete_station\<close> (mountain.py) leaves of the line \<open>e\<close> when it
  reaches it, whether it marks the line \<open>k\<close> for removal, and what holds when the loop
  over the lines \<open>lids\<close> has ended.
\<close>

definition loop_entry :: "(int \<times> station_m) list \<Rightarrow> int \<Rightarrow> line_m \<Rightarrow> line_m" where
  "loop_entry sts sid e =
     (if sid \<in> set (station_ids_m e)
      then (let ids = remove1 sid (station_ids_m e) in
            if length ids < 2 then e\<lparr>station_ids_m := ids\<rparr>
            else e\<lparr>station_ids_m := ids,
                   line_actor_m := Line_actor (known_coords sts ids) 100 (color_m e)\<rparr>)
      else e)"

definition loop_drops :: "int \<Rightarrow> (int \<times> line_m) list \<Rightarrow> int \<Rightarrow> bool" where
  "loop_drops sid ls k =
     (case map_of ls k of
        None \<Rightarrow> False
      | Some e \<Rightarrow> sid \<in> set (station_ids_m e) \<and> length (remove1 sid (station_ids_m e)) < 2)"

definition loop_post ::
  "int \<Rightarrow> int list \<Rightarrow> mountain \<Rightarrow> int list \<Rightarrow> outcome \<times> mountain \<times> int list \<Rightarrow> bool" where
  "loop_post sid lids s acc res =
     (case res of
        (r, s', rem) \<Rightarrow>
          r = Done \<and> rem = acc @ filter (loop_drops sid (train_lines s)) lids
          \<and> stations_m s' = stations_m s
          \<and> (\<forall>k. map_of (train_lines s') k =
                 (if k \<in> set lids
                  then map_option (loop_entry (stations_m s) sid) (map_of (train_lines s) k)
                  else map_of (train_lines s) k)))"

text \<open>
  The cascade on one line, in the words of the specification, \<open>sts\<close> being the stations
  that remain: a line that does not refer to the deleted station stays as it is; otherwise
  the station is taken out of its reference list, and the line is deleted when fewer than
  two of the references left resolve to stations, or kept with its curve rebuilt from the
  coordinates of the stations they resolve to.
\<close>

definition cascade_entry :: "(int \<times> station_m) list \<Rightarrow> int \<Rightarrow> line_m \<Rightarrow> line_m option" where
  "cascade_entry sts sid e =
     (if sid \<in> set (station_ids_m e)
      then (let ids = removeAll sid (station_ids_m e) in
            if length (known_coords sts ids) < 2 then None
            else Some (e\<lparr>station_ids_m := ids,
                         line_actor_m := Line_actor (known_coords sts ids) 100 (color_m e)\<rparr>))
      else Some e)"

text \<open>
  The line that a row of the line table of gui.py stands for: none when a cell is missing,
  the name or the station list is blank, fewer than two of the names are names of
  stations, or the colour text is rejected; otherwise the line through the stations that
  the names resolve to.
\<close>

definition row_line :: "(int \<times> station) list \<Rightarrow> line_row \<Rightarrow> line option" where
  "row_line sts row =
     (case row of
        (Some nt, Some st, Some ct) \<Rightarrow>
          if strip nt = [] \<or> strip st = [] then None
          else (let names = split_names (strip st);
                    cs = lookup_station_coords names sts in
                if length cs < 2 then None
                else (case hex_to_rgb (strip ct) of
                        Inl _ \<Rightarrow> None
                      | Inr col \<Rightarrow>
                          Some \<lparr>line_name = strip nt, station_ids = names,
                                line_actor = Some (Line_actor cs 50 col), color = col\<rparr>))
      | _ \<Rightarrow> None)"

text \<open>
  The rows at which the rebuild of the lines registry stops with an error: all three cells
  are there, name and station list are not blank, two or more names resolve to stations,
  and \<open>hex_to_rgb\<close> rejects the colour text.
\<close>

definition row_raises :: "(int \<times> station) list \<Rightarrow> line_row \<Rightarrow> bool" where
  "row_raises sts row =
     (case row of
        (Some nt, Some st, Some ct) \<Rightarrow>
          strip nt \<noteq> [] \<and> strip st \<noteq> []
          \<and> 2 \<le> length (lookup_station_coords (split_names (strip st)) sts)
          \<and> isl (hex_to_rgb (strip ct))
      | _ \<Rightarrow> False)"


section \<open>Properties of the colour conversions\<close>

lemma lt16_cases: "(n::nat) < 16 \<Longrightarrow> n \<in> {0,1,2,3,4,5,6,7,8,9,10,11,12,13,14,15}"
  by (simp only: insert_iff empty_iff) arith

lemma hexchar_is_hex: "n < 16 \<Longrightarrow> is_hex (hexchar n)"
  using lt16_cases[of n] by (auto simp: is_hex_def hexchar_def)

lemma hexchar_upper: "n < 16 \<Longrightarrow> hexchar n \<in> set ''0123456789ABCDEF''"
  using lt16_cases[of n] by (auto simp: hexchar_def)

lemma is_hex_digit_in: "is_hex c \<Longrightarrow> \<exists>v. digit_in 16 c = Some v \<and> v < 16"
  by (auto simp: is_hex_def digit_in_def digit_val_def)

lemma digit_in_hexchar: "n < 16 \<Longrightarrow> digit_in 16 (hexchar n) = Some n"
  using lt16_cases[of n] by (auto simp: digit_in_def digit_val_def hexchar_def)

lemma is_hex_plain:
  "is_hex c \<Longrightarrow> \<not> is_int_space c \<and> c \<noteq> CHR ''+'' \<and> c \<noteq> CHR ''-'' \<and> c \<noteq> CHR ''_''
      \<and> c \<noteq> CHR ''x'' \<and> c \<noteq> CHR ''X''"
  by (auto simp: is_hex_def is_int_space_def)

lemma int_str_two_hex:
  assumes "is_hex c" "is_hex d"
  shows "int_str 16 [c, d] = Inr (int (the (digit_in 16 c) * 16 + the (digit_in 16 d)))"
proof -
  from assms obtain v w where v: "digit_in 16 c = Some v" and w: "digit_in 16 d = Some w"
    using is_hex_digit_in by blast
  have s: "strip_with is_int_space [c, d] = [c, d]"
    using assms is_hex_plain by (simp add: strip_with_def)
  have ds: "drop_sign [c, d] = (False, [c, d])"
    using assms(1) is_hex_plain by (simp add: drop_sign_def)
  have dp: "drop_prefix 16 [c, d] = [c, d]"
    using assms(2) is_hex_plain by (simp add: drop_prefix_def)
  show ?thesis
    by (simp add: int_str_def s ds dp v w)
qed

lemma fmt_02X_byte:
  assumes "0 \<le> n" "n \<le> 255"
  shows "fmt_02X n = [hexchar (nat n div 16), hexchar (nat n mod 16)]"
proof (cases "nat n < 16")
  case True
  then have "hex_digits (nat n) = [hexchar (nat n)]"
    by (simp add: hex_digits.simps)
  moreover have "hexchar 0 = CHR ''0''" by (simp add: hexchar_def)
  ultimately show ?thesis using True assms by (simp add: fmt_02X_def)
next
  case False
  have "nat n div 16 < 16" using assms by simp
  then have "hex_digits (nat n div 16) = [hexchar (nat n div 16)]"
    by (simp add: hex_digits.simps)
  then have "hex_digits (nat n) = [hexchar (nat n div 16), hexchar (nat n mod 16)]"
    using False by (subst hex_digits.simps) simp
  then show ?thesis using assms by (simp add: fmt_02X_def)
qed

lemma channel_byte:
  assumes "0 \<le> r" "r \<le> 1"
  shows "0 \<le> py_int (r * 255) \<and> py_int (r * 255) \<le> 255
         \<and> \<bar>real_of_int (py_int (r * 255)) / 255 - r\<bar> \<le> 1 / 255"
proof -
  have p: "py_int (r * 255) = \<lfloor>r * 255\<rfloor>" using assms by (simp add: py_int_def)
  have a: "0 \<le> \<lfloor>r * 255\<rfloor>" using assms by simp
  have "r * 255 \<le> 255" using assms by simp
  then have b: "\<lfloor>r * 255\<rfloor> \<le> 255" by (simp add: floor_le_iff)
  have c1: "real_of_int \<lfloor>r * 255\<rfloor> \<le> r * 255" by (rule of_int_floor_le)
  have c2: "r * 255 < real_of_int \<lfloor>r * 255\<rfloor> + 1" by linarith
  have "\<bar>real_of_int \<lfloor>r * 255\<rfloor> / 255 - r\<bar> \<le> 1 / 255"
    using c1 c2 by (simp add: abs_le_iff field_simps)
  then show ?thesis using p a b by simp
qed

lemma hex_to_rgb_six:
  assumes "is_hex a" "is_hex b" "is_hex c" "is_hex d" "is_hex e" "is_hex f"
  shows "hex_to_rgb [a, b, c, d, e, f] =
           Inr [real (the (digit_in 16 a) * 16 + the (digit_in 16 b)) / 255,
                real (the (digit_in 16 c) * 16 + the (digit_in 16 d)) / 255,
                real (the (digit_in 16 e) * 16 + the (digit_in 16 f)) / 255]"
proof -
  have "a \<noteq> CHR ''#''" using assms(1) by (auto simp: is_hex_def)
  then have l: "lstrip ''#'' [a, b, c, d, e, f] = [a, b, c, d, e, f]"
    by (simp add: lstrip_def)
  show ?thesis
    by (simp add: hex_to_rgb_def l slice_def int_str_two_hex assms)
qed

lemma hex_to_rgb_hash_six:
  assumes "is_hex a" "is_hex b" "is_hex c" "is_hex d" "is_hex e" "is_hex f"
  shows "hex_to_rgb (CHR ''#'' # [a, b, c, d, e, f]) = hex_to_rgb [a, b, c, d, e, f]"
  by (simp add: hex_to_rgb_def lstrip_def)

text \<open>
  Claim C7.  For every normalised colour \<open>[r, g, b]\<close> (each channel between 0 and 1),
  \<open>rgb_to_hex\<close> returns \<open>#\<close> followed by six uppercase hexadecimal digits, and
  \<open>hex_to_rgb\<close> of that text returns a colour whose channels each differ from the
  original by at most 1/255.
\<close>

theorem rgb_hex_roundtrip:
  assumes "0 \<le> r" "r \<le> 1" "0 \<le> g" "g \<le> 1" "0 \<le> b" "b \<le> 1"
  shows "\<exists>h r' g' b'.
           rgb_to_hex [r, g, b] = Inr (CHR ''#'' # h) \<and> length h = 6
           \<and> set h \<subseteq> set ''0123456789ABCDEF''
           \<and> hex_to_rgb (CHR ''#'' # h) = Inr [r', g', b']
           \<and> \<bar>r' - r\<bar> \<le> 1 / 255 \<and> \<bar>g' - g\<bar> \<le> 1 / 255 \<and> \<bar>b' - b\<bar> \<le> 1 / 255"
proof -
  define nr where "nr = nat (py_int (r * 255))"
  define ng where "ng = nat (py_int (g * 255))"
  define nb where "nb = nat (py_int (b * 255))"
  note cr = channel_byte[OF assms(1,2)] and cg = channel_byte[OF assms(3,4)]
    and cb = channel_byte[OF assms(5,6)]
  let ?h = "[hexchar (nr div 16), hexchar (nr mod 16), hexchar (ng div 16), hexchar (ng mod 16),
             hexchar (nb div 16), hexchar (nb mod 16)]"
  have le: "nr \<le> 255" "ng \<le> 255" "nb \<le> 255"
    using cr cg cb unfolding nr_def ng_def nb_def by linarith+
  have bnd: "nr div 16 < 16" "ng div 16 < 16" "nb div 16 < 16"
    using le by arith+
  have md: "nr mod 16 < 16" "ng mod 16 < 16" "nb mod 16 < 16" by simp_all
  have enc: "rgb_to_hex [r, g, b] = Inr (CHR ''#'' # ?h)"
    using cr cg cb by (simp add: rgb_to_hex_def fmt_02X_byte nr_def ng_def nb_def)
  have up: "set ?h \<subseteq> set ''0123456789ABCDEF''"
    using hexchar_upper[OF bnd(1)] hexchar_upper[OF bnd(2)] hexchar_upper[OF bnd(3)]
      hexchar_upper[OF md(1)] hexchar_upper[OF md(2)] hexchar_upper[OF md(3)]
    by simp
  have dec: "hex_to_rgb (CHR ''#'' # ?h) = Inr [real nr / 255, real ng / 255, real nb / 255]"
    by (simp add: hex_to_rgb_hash_six hex_to_rgb_six hexchar_is_hex digit_in_hexchar bnd md
        del: of_nat_add of_nat_mult)
  have er: "\<bar>real nr / 255 - r\<bar> \<le> 1 / 255" using cr by (simp add: nr_def)
  have eg: "\<bar>real ng / 255 - g\<bar> \<le> 1 / 255" using cg by (simp add: ng_def)
  have eb: "\<bar>real nb / 255 - b\<bar> \<le> 1 / 255" using cb by (simp add: nb_def)
  show ?thesis
    using enc up dec er eg eb by (intro exI[of _ ?h] exI conjI) simp_all
qed

theorem rgb_hex_roundtrip_witness:
  "(0::real) \<le> 1 \<and> (1::real) \<le> 1 \<and> (0::real) \<le> 1 / 2 \<and> (1::real) / 2 \<le> 1 \<and> (0::real) \<le> 0
   \<and> (0::real) \<le> 1
   \<and> (\<exists>h r' g' b'.
           rgb_to_hex [1, 1 / 2, 0] = Inr (CHR ''#'' # h) \<and> length h = 6
           \<and> set h \<subseteq> set ''0123456789ABCDEF''
           \<and> hex_to_rgb (CHR ''#'' # h) = Inr [r', g', b']
           \<and> \<bar>r' - 1\<bar> \<le> 1 / 255 \<and> \<bar>g' - 1 / 2\<bar> \<le> 1 / 255 \<and> \<bar>b' - 0\<bar> \<le> 1 / 255)"
  using rgb_hex_roundtrip [of 1 "1 / 2" 0] by simp




section \<open>Properties of the elevation lookup\<close>

lemma argmin_loop_spec:
  "\<lbrakk>bi < k; pre ! bi = bv; length pre = k; \<forall>m < k. bv \<le> pre ! m; \<forall>m < bi. bv < pre ! m\<rbrakk>
   \<Longrightarrow> (let i = argmin_loop vs k bi bv in
        i < length (pre @ vs) \<and> (\<forall>m < length (pre @ vs). (pre @ vs) ! i \<le> (pre @ vs) ! m)
        \<and> (\<forall>m < i. (pre @ vs) ! i < (pre @ vs) ! m))"
proof (induction vs arbitrary: pre k bi bv)
  case Nil
  then show ?case by simp
next
  case (Cons v vs)
  show ?case
  proof (cases "v < bv")
    case True
    have "let i = argmin_loop vs (Suc k) k v in
        i < length ((pre @ [v]) @ vs) \<and> (\<forall>m < length ((pre @ [v]) @ vs). ((pre @ [v]) @ vs) ! i \<le> ((pre @ [v]) @ vs) ! m)
        \<and> (\<forall>m < i. ((pre @ [v]) @ vs) ! i < ((pre @ [v]) @ vs) ! m)"
    proof (rule Cons.IH)
      show "k < Suc k" by simp
      show "(pre @ [v]) ! k = v" using Cons.prems by (auto simp: nth_append)
      show "length (pre @ [v]) = Suc k" using Cons.prems by simp
      show "\<forall>m<Suc k. v \<le> (pre @ [v]) ! m"
        using Cons.prems True by (auto simp: nth_append less_Suc_eq) 
      show "\<forall>m<k. v < (pre @ [v]) ! m"
        using Cons.prems True by (auto simp: nth_append)
    qed
    then show ?thesis using True by simp
  next
    case False
    have "let i = argmin_loop vs (Suc k) bi bv in
        i < length ((pre @ [v]) @ vs) \<and> (\<forall>m < length ((pre @ [v]) @ vs). ((pre @ [v]) @ vs) ! i \<le> ((pre @ [v]) @ vs) ! m)
        \<and> (\<forall>m < i. ((pre @ [v]) @ vs) ! i < ((pre @ [v]) @ vs) ! m)"
    proof (rule Cons.IH)
      show "bi < Suc k" using Cons.prems by simp
      show "(pre @ [v]) ! bi = bv" using Cons.prems by (simp add: nth_append)
      show "length (pre @ [v]) = Suc k" using Cons.prems by simp
      show "\<forall>m<Suc k. bv \<le> (pre @ [v]) ! m"
        using Cons.prems False by (auto simp: nth_append less_Suc_eq)
      show "\<forall>m<bi. bv < (pre @ [v]) ! m"
        using Cons.prems by (auto simp: nth_append)
    qed
    then show ?thesis using False by simp
  qed
qed

lemma argmin_spec:
  assumes "vs \<noteq> []"
  shows "\<exists>i. argmin vs = Some i \<and> i < length vs \<and> (\<forall>m < length vs. vs ! i \<le> vs ! m)
           \<and> (\<forall>m < i. vs ! i < vs ! m)"
proof -
  from assms obtain v rest where vs: "vs = v # rest" by (cases vs) auto
  have "let i = argmin_loop rest 1 0 v in
        i < length ([v] @ rest) \<and> (\<forall>m < length ([v] @ rest). ([v] @ rest) ! i \<le> ([v] @ rest) ! m)
        \<and> (\<forall>m < i. ([v] @ rest) ! i < ([v] @ rest) ! m)"
    by (rule argmin_loop_spec) simp_all
  then show ?thesis by (simp add: vs argmin_def Let_def)
qed

lemma nearest_sample_spec:
  assumes "xs \<noteq> []" "ys \<noteq> []" "length data = length xs" "\<forall>row \<in> set data. length row = length ys"
  shows "\<exists>i j. nearest_sample xs ys data x y = Inr (data ! i ! j)
           \<and> i < length xs \<and> j < length ys
           \<and> (\<forall>k < length xs. \<bar>xs ! i - x\<bar> \<le> \<bar>xs ! k - x\<bar>)
           \<and> (\<forall>k < i. \<bar>xs ! i - x\<bar> < \<bar>xs ! k - x\<bar>)
           \<and> (\<forall>k < length ys. \<bar>ys ! j - y\<bar> \<le> \<bar>ys ! k - y\<bar>)
           \<and> (\<forall>k < j. \<bar>ys ! j - y\<bar> < \<bar>ys ! k - y\<bar>)"
proof -
  let ?dx = "map (\<lambda>v. \<bar>v - x\<bar>) xs" and ?dy = "map (\<lambda>v. \<bar>v - y\<bar>) ys"
  have "?dx \<noteq> []" "?dy \<noteq> []" using assms by simp_all
  then obtain i j where
    i: "argmin ?dx = Some i" "i < length ?dx" "\<forall>m < length ?dx. ?dx ! i \<le> ?dx ! m"
       "\<forall>m < i. ?dx ! i < ?dx ! m"
    and j: "argmin ?dy = Some j" "j < length ?dy" "\<forall>m < length ?dy. ?dy ! j \<le> ?dy ! m"
       "\<forall>m < j. ?dy ! j < ?dy ! m"
    using argmin_spec[of ?dx] argmin_spec[of ?dy] by blast
  have il: "i < length xs" and jl: "j < length ys" using i(2) j(2) by simp_all
  have "data ! i \<in> set data" using il assms(3) by simp
  then have "j < length (data ! i)" using jl assms(4) by simp
  then have r: "nearest_sample xs ys data x y = Inr (data ! i ! j)"
    using i(1) j(1) il assms(3) by (simp add: nearest_sample_def index2_def)
  have x1: "\<forall>k < length xs. \<bar>xs ! i - x\<bar> \<le> \<bar>xs ! k - x\<bar>" using i(3) il by simp
  have x2: "\<forall>k < i. \<bar>xs ! i - x\<bar> < \<bar>xs ! k - x\<bar>" using i(4) il by simp
  have y1: "\<forall>k < length ys. \<bar>ys ! j - y\<bar> \<le> \<bar>ys ! k - y\<bar>" using j(3) jl by simp
  have y2: "\<forall>k < j. \<bar>ys ! j - y\<bar> < \<bar>ys ! k - y\<bar>" using j(4) jl by simp
  show ?thesis using r il jl x1 x2 y1 y2 by blast
qed

text \<open>
  Claim C1.  With a terrain loaded whose grid has one row per x-sample and one column per
  y-sample, \<open>get_elevation\<close> (in both editors) returns, for every query point, the grid
  value at \<open>(i, j)\<close> where \<open>i\<close> minimises the distance of the x-samples to \<open>x\<close>,
  \<open>j\<close> independently minimises the distance of the y-samples to \<open>y\<close>, and every lower
  index is strictly farther away (ties go to the lower index).
\<close>

theorem get_elevation_nearest:
  assumes "xs \<noteq> []" "ys \<noteq> []" "length data = length xs"
    "\<forall>row \<in> set data. length row = length ys"
    "dem s = Some (xs, ys, data)" "dem_m t = Some (xs, ys, data)"
  shows "\<exists>i j. get_elevation s x y = Inr (data ! i ! j)
           \<and> get_elevation_m t x y = Inr (data ! i ! j)
           \<and> i < length xs \<and> j < length ys
           \<and> (\<forall>k < length xs. \<bar>xs ! i - x\<bar> \<le> \<bar>xs ! k - x\<bar>)
           \<and> (\<forall>k < i. \<bar>xs ! i - x\<bar> < \<bar>xs ! k - x\<bar>)
           \<and> (\<forall>k < length ys. \<bar>ys ! j - y\<bar> \<le> \<bar>ys ! k - y\<bar>)
           \<and> (\<forall>k < j. \<bar>ys ! j - y\<bar> < \<bar>ys ! k - y\<bar>)"
  using nearest_sample_spec[OF assms(1-4), of x y] assms(5,6)
  by (simp add: get_elevation_def get_elevation_m_def)

theorem get_elevation_nearest_witness:
  "[0, 10, 20] \<noteq> ([] :: real list) \<and> [0, 5] \<noteq> ([] :: real list)
   \<and> length [[1, 2], [3, 4], [5, 6 :: real]] = length [0, 10, 20 :: real]
   \<and> map length [[1, 2], [3, 4], [5, 6 :: real]] = [2, 2, 2] \<and> length [0, 5 :: real] = 2
   \<and> get_elevation (init (Some ([0, 10, 20], [0, 5], [[1, 2], [3, 4], [5, 6]]))) 5 (5 / 2)
       = Inr 1
   \<and> get_elevation_m (init_m (Some ([0, 10, 20], [0, 5], [[1, 2], [3, 4], [5, 6]]))) 5 (5 / 2)
       = Inr 1"
  using get_elevation_nearest [of "[0, 10, 20]" "[0, 5]" "[[1, 2], [3, 4], [5, 6]]"
      "init (Some ([0, 10, 20], [0, 5], [[1, 2], [3, 4], [5, 6]]))"
      "init_m (Some ([0, 10, 20], [0, 5], [[1, 2], [3, 4], [5, 6]]))" 5 "5 / 2"]
  by (simp add: init_def init_m_def get_elevation_def get_elevation_m_def nearest_sample_def
      argmin_def index2_def)


section \<open>Properties of the station lookup\<close>

lemma first_match_find:
  "first_match n d = map_option (coords \<circ> snd) (find (\<lambda>e. name (snd e) = n) d)"
  by (induction n d rule: first_match.induct) simp_all

lemma lookup_map_filter:
  "lookup_station_coords ns d = List.map_filter (\<lambda>n. first_match n d) ns"
  by (induction ns) (simp_all add: map_filter_simps split: option.splits)

lemma first_match_None: "first_match n d = None \<longleftrightarrow> n \<notin> set (map (name \<circ> snd) d)"
  by (induction n d rule: first_match.induct) auto

lemma lookup_length:
  "length (lookup_station_coords ns d) =
     length (filter (\<lambda>n. n \<in> set (map (name \<circ> snd) d)) ns)"
proof (induction ns)
  case Nil
  then show ?case by simp
next
  case (Cons n ns)
  show ?case
  proof (cases "first_match n d")
    case None
    then show ?thesis using Cons first_match_None[of n d] by simp
  next
    case (Some c)
    then have "n \<in> set (map (name \<circ> snd) d)" using first_match_None[of n d] by auto
    then show ?thesis using Cons Some by simp
  qed
qed

text \<open>
  Claim C9.  \<open>lookup_station_coords\<close> returns, in the order of the given names, the
  coordinates of the first registry entry (in registry order) carrying each name, and skips
  a name no entry carries; so the result is as long as the number of names that some entry
  carries.  It is a total function: no name makes it raise.
\<close>

theorem lookup_station_coords_first_match:
  "lookup_station_coords ns d =
     List.map_filter (\<lambda>n. map_option (coords \<circ> snd) (find (\<lambda>e. name (snd e) = n) d)) ns
   \<and> length (lookup_station_coords ns d) =
       length (filter (\<lambda>n. n \<in> set (map (name \<circ> snd) d)) ns)"
  using lookup_length[of ns d] by (simp add: lookup_map_filter first_match_find)


section \<open>Properties of the station map editor\<close>

text \<open>
  Claim C6.  In every state, \<open>clear_all\<close> empties the stations registry and the lines
  registry (and both tables) and sets both id counters to 1, the values they have after
  \<open>__init__\<close>; the loaded terrain is kept.
\<close>

theorem clear_all_resets:
  "stations (clear_all s) = [] \<and> lines (clear_all s) = []
   \<and> next_station_id (clear_all s) = 1 \<and> next_line_id (clear_all s) = 1
   \<and> next_station_id (init d) = 1 \<and> next_line_id (init d) = 1
   \<and> clear_all s = init (dem s)"
  by (simp add: clear_all_def init_def)


section \<open>Creating a line from too few stations\<close>

lemma lookup_length_le: "length (lookup_station_coords ns d) \<le> length ns"
  by (induction ns) (auto split: option.splits)

lemma split_on_no_sep: "sep \<notin> set s \<Longrightarrow> split_on sep s = [s]"
  by (induction s) auto

lemma set_strip_subset: "set (strip s) \<subseteq> set s"
proof -
  have "set (strip s) \<subseteq> set (dropWhile is_space s)"
    unfolding strip_def strip_with_def using set_dropWhileD by fastforce
  also have "\<dots> \<subseteq> set s" using set_dropWhileD by fastforce
  finally show ?thesis .
qed

lemma few_names_few_coords:
  assumes "length ids < 2" "\<forall>n \<in> set ids. CHR '','' \<notin> set n"
  shows "strip (join '', '' ids) = []
         \<or> length (lookup_station_coords (split_names (strip (join '', '' ids))) sts) < 2"
proof (cases ids)
  case Nil
  then show ?thesis by (simp add: strip_def strip_with_def)
next
  case (Cons n rest)
  then have ids: "ids = [n]" using assms(1) by (cases rest) auto
  have "CHR '','' \<notin> set (strip n)" using assms(2) set_strip_subset[of n] ids by auto
  then have "split_on (CHR '','') (strip n) = [strip n]" by (rule split_on_no_sep)
  then have "length (split_names (strip n)) \<le> 1" by (simp add: split_names_def)
  then have "length (lookup_station_coords (split_names (strip n)) sts) \<le> 1"
    using lookup_length_le[of "split_names (strip n)" sts] by linarith
  then show ?thesis using ids by simp
qed

lemma refresh_lines_loop_skip_last:
  assumes "strip nt = [] \<or> strip st = []
           \<or> length (lookup_station_coords (split_names (strip st)) sts) < 2"
  shows "refresh_lines_loop sts (rows @ [(Some nt, Some st, ct)]) c acc
         = refresh_lines_loop sts rows c acc"
proof (induction rows arbitrary: c acc)
  case Nil
  show ?case using assms by (cases ct) (auto simp: Let_def)
next
  case (Cons r rows)
  obtain a b d where r: "r = (a, b, d)" by (cases r)
  show ?case
    by (simp add: r Cons.IH Let_def split: option.splits sum.splits)
qed

lemma example_rgb: "rgb_to_hex [0, 0, 1] = Inr ''#0000FF''"
  by (simp add: rgb_to_hex_def fmt_02X_def py_int_def hex_digits.simps hexchar_def)

text \<open>
  Claim C5, as the code has it.  In mountain.py, creating a line from fewer than two
  selected stations, or with fewer than two stations in the registry, ends in a warning and
  leaves the state unchanged.  In gui.py the warning is given only when the registry has
  fewer than two stations.  With two or more stations, an accepted dialog with fewer than
  two selected names (none containing a comma) is not refused: its row is appended to the
  line table, the stations registry is unchanged, and the lines registry is rebuilt from
  the rows that were there before, the new row being skipped.
\<close>

theorem add_line_too_few:
  "(length selected_ids < 2 \<longrightarrow>
      (\<exists>w. add_line_m m (Some selected_ids) col = (Warned w, m)))
   \<and> (length (stations_m m') < 2 \<longrightarrow> (\<exists>w. add_line_m m' dlg_m col' = (Warned w, m')))
   \<and> (length (stations s) < 2 \<longrightarrow> (\<exists>w. add_line s dlg = (Warned w, s)))
   \<and> (2 \<le> length (stations t) \<and> length ids < 2 \<and> (\<forall>n \<in> set ids. CHR '','' \<notin> set n)
        \<and> rgb_to_hex c = Inr h \<longrightarrow>
        add_line t (Some (nm, ids, c)) =
          (fst (refresh_lines_loop (stations t) (line_table t) 1 []),
           t\<lparr>line_table := line_table t @ [(Some nm, Some (join '', '' ids), Some h)],
             lines := snd (refresh_lines_loop (stations t) (line_table t) 1 [])\<rparr>))"
proof (intro conjI impI)
  assume "length selected_ids < 2"
  then show "\<exists>w. add_line_m m (Some selected_ids) col = (Warned w, m)"
    by (simp add: add_line_m_def)
next
  assume "length (stations_m m') < 2"
  then show "\<exists>w. add_line_m m' dlg_m col' = (Warned w, m')"
    by (simp add: add_line_m_def)
next
  assume "length (stations s) < 2"
  then show "\<exists>w. add_line s dlg = (Warned w, s)"
    by (simp add: add_line_def)
next
  assume a: "2 \<le> length (stations t) \<and> length ids < 2 \<and> (\<forall>n \<in> set ids. CHR '','' \<notin> set n)
        \<and> rgb_to_hex c = Inr h"
  have "strip (join '', '' ids) = []
         \<or> length (lookup_station_coords (split_names (strip (join '', '' ids))) (stations t)) < 2"
    using a few_names_few_coords by blast
  then have "refresh_lines_loop (stations t)
               (line_table t @ [(Some nm, Some (join '', '' ids), Some h)]) 1 []
             = refresh_lines_loop (stations t) (line_table t) 1 []"
    using refresh_lines_loop_skip_last by blast
  then show "add_line t (Some (nm, ids, c)) =
          (fst (refresh_lines_loop (stations t) (line_table t) 1 []),
           t\<lparr>line_table := line_table t @ [(Some nm, Some (join '', '' ids), Some h)],
             lines := snd (refresh_lines_loop (stations t) (line_table t) 1 [])\<rparr>)"
    using a by (simp add: add_line_def refresh_lines_on_plot_def split: prod.splits)
qed

theorem add_line_too_few_witness:
  "(\<exists>w. add_line_m example_mountain (Some [1]) [0, 0, 1] = (Warned w, example_mountain))
   \<and> (\<exists>w. add_line_m (init_m None) (Some [1, 2]) [0, 0, 1] = (Warned w, init_m None))
   \<and> (\<exists>w. add_line (init None) None = (Warned w, init None))
   \<and> add_line example_gui (Some (''M'', [''Station 1''], [0, 0, 1])) =
       (fst (refresh_lines_loop (stations example_gui) (line_table example_gui) 1 []),
        example_gui\<lparr>line_table := line_table example_gui @
                       [(Some ''M'', Some (join '', '' [''Station 1'']), Some ''#0000FF'')],
                    lines := snd (refresh_lines_loop (stations example_gui)
                                    (line_table example_gui) 1 [])\<rparr>)"
proof -
  have h1: "length [1::int] < 2" by simp
  have h2: "length (stations_m (init_m None)) < 2" by (simp add: init_m_def)
  have h3: "length (stations (init None)) < 2" by (simp add: init_def)
  have h4: "2 \<le> length (stations example_gui) \<and> length [''Station 1''] < 2
            \<and> (\<forall>n \<in> set [''Station 1'']. CHR '','' \<notin> set n)
            \<and> rgb_to_hex [0, 0, 1] = Inr ''#0000FF''"
    using example_rgb by (simp add: example_gui_def)
  show ?thesis
    using add_line_too_few [where selected_ids = "[1]" and m = example_mountain
        and col = "[0, 0, 1]" and m' = "init_m None" and dlg_m = "Some [1, 2]"
        and col' = "[0, 0, 1]" and s = "init None" and dlg = None and t = example_gui
        and ids = "[''Station 1'']" and c = "[0, 0, 1]" and h = "''#0000FF''" and nm = "''M''"]
      h1 h2 h3 h4
    by blast
qed

text \<open>
  In gui.py, with three stations in the registry, a dialog accepted with the single name
  \<open>Station 1\<close> returns without a warning and stores a row in the line table.
\<close>

theorem add_line_single_name_counterexample:
  "length [''Station 1''] < (2::nat)
   \<and> add_line example_gui (Some (''M'', [''Station 1''], [0, 0, 1]))
       = (Done, example_gui\<lparr>line_table := line_table example_gui @
                                [(Some ''M'', Some ''Station 1'', Some ''#0000FF'')]\<rparr>)
   \<and> line_table example_gui @ [(Some ''M'', Some ''Station 1'', Some ''#0000FF'')]
       \<noteq> line_table example_gui"
  by code_simp


section \<open>Cell edits with malformed text\<close>

lemma those_map_length: "those (map f xs) = Some ys \<Longrightarrow> length ys = length xs"
  by (induction xs arbitrary: ys) (auto split: option.splits)

lemma parse_ids_length: "parse_ids text = Some ids \<Longrightarrow> length ids = length (digit_entries text)"
  unfolding parse_ids_def by (rule those_map_length)

lemma update_line_actor_not_raised:
  "has_key (train_lines s) lid \<Longrightarrow> fst (update_line_actor s lid) = Done"
  by (auto simp: update_line_actor_def has_key_def Let_def split: option.splits)

lemma line_cell_changed_never_raises:
  "fst (line_cell_changed m column lid_item text_item) \<noteq> Raised e"
  by (auto simp: line_cell_changed_def split: option.splits sum.splits)

lemma line_cell_changed_few_digits:
  assumes "length (digit_entries text) < 2"
  shows "snd (line_cell_changed m column lid_item (Some text)) = m"
  using assms parse_ids_length[of "text"]
  by (auto simp: line_cell_changed_def split: option.splits sum.splits)

lemma map_of_update_same: "map_of (AList.update k v al) k = Some v"
  by (simp add: update_conv')

lemma line_cell_changed_applies:
  assumes "int_str 10 lt = Inr lid" "map_of (train_lines m) lid = Some entry"
    "parse_ids text = Some new_ids" "2 \<le> length new_ids"
  shows "line_cell_changed m 1 (Some lt) (Some text) =
           (Done, m\<lparr>train_lines :=
                      AList.update lid
                        (entry\<lparr>station_ids_m := new_ids,
                               line_actor_m := Line_actor (known_coords (stations_m m) new_ids)
                                                 100 (color_m entry)\<rparr>)
                        (train_lines m)\<rparr>)"
  using assms
  by (simp add: line_cell_changed_def update_line_actor_def map_of_update_same Let_def)

lemma line_cell_changed_warns:
  assumes "int_str 10 lw = Inr lid" "parse_ids typed = Some few" "length few < 2"
  shows "line_cell_changed m 1 (Some lw) (Some typed)
         = (Warned ''A line must have at least two stations.'', m)"
  using assms by (simp add: line_cell_changed_def)

text \<open>
  Claim C8, as the code has it.  An edit of an x or y cell whose text \<open>float\<close> rejects
  returns without raising and leaves the whole state unchanged, in both editors.  The
  handler for the station-id list of mountain.py never raises; it drops the entries that
  are not digits and goes on with the rest: when fewer than two entries are left, the state
  is unchanged, and when the line id and those entries parse, the handler shows the warning
  box \<open>A line must have at least two stations.\<close>; when two or more are left and
  parse, they replace the reference list of the line and its curve is rebuilt.
\<close>

theorem malformed_cell_edit:
  "((column = 1 \<or> column = 2) \<and> station_item (station_table s) row 1 = Some xt
      \<and> station_item (station_table s) row 2 = Some yt
      \<and> (pyfloat xt = None \<or> pyfloat yt = None) \<longrightarrow>
      station_table_cell_changed pyfloat fmt s row column = (Done, s))
   \<and> (pyfloat xt' = None \<or> pyfloat yt' = None \<longrightarrow>
        station_cell_changed pyfloat m column' sid_item (Some xt') (Some yt') = (Done, m))
   \<and> (\<forall>e. fst (line_cell_changed m column'' lid_item text_item) \<noteq> Raised e)
   \<and> (length (digit_entries typed) < 2 \<longrightarrow>
        snd (line_cell_changed m column'' lid_item (Some typed)) = m)
   \<and> (int_str 10 lt = Inr lid \<and> map_of (train_lines m) lid = Some entry
        \<and> parse_ids typed' = Some new_ids \<and> 2 \<le> length new_ids \<longrightarrow>
        line_cell_changed m 1 (Some lt) (Some typed') =
          (Done, m\<lparr>train_lines :=
                     AList.update lid
                       (entry\<lparr>station_ids_m := new_ids,
                              line_actor_m := Line_actor (known_coords (stations_m m) new_ids)
                                                100 (color_m entry)\<rparr>)
                       (train_lines m)\<rparr>))
   \<and> (int_str 10 lw = Inr lid_w \<and> parse_ids typed_w = Some few \<and> length few < 2 \<longrightarrow>
        line_cell_changed m 1 (Some lw) (Some typed_w)
          = (Warned ''A line must have at least two stations.'', m))"
proof (intro conjI impI allI)
  assume "(column = 1 \<or> column = 2) \<and> station_item (station_table s) row 1 = Some xt
      \<and> station_item (station_table s) row 2 = Some yt
      \<and> (pyfloat xt = None \<or> pyfloat yt = None)"
  then show "station_table_cell_changed pyfloat fmt s row column = (Done, s)"
    by (auto simp: station_table_cell_changed_def split: option.splits)
next
  assume "pyfloat xt' = None \<or> pyfloat yt' = None"
  then show "station_cell_changed pyfloat m column' sid_item (Some xt') (Some yt') = (Done, m)"
    by (auto simp: station_cell_changed_def split: option.splits sum.splits)
next
  fix e show "fst (line_cell_changed m column'' lid_item text_item) \<noteq> Raised e"
    by (rule line_cell_changed_never_raises)
next
  assume "length (digit_entries typed) < 2"
  then show "snd (line_cell_changed m column'' lid_item (Some typed)) = m"
    by (rule line_cell_changed_few_digits)
next
  assume "int_str 10 lt = Inr lid \<and> map_of (train_lines m) lid = Some entry
        \<and> parse_ids typed' = Some new_ids \<and> 2 \<le> length new_ids"
  then show "line_cell_changed m 1 (Some lt) (Some typed') =
          (Done, m\<lparr>train_lines :=
                     AList.update lid
                       (entry\<lparr>station_ids_m := new_ids,
                              line_actor_m := Line_actor (known_coords (stations_m m) new_ids)
                                                100 (color_m entry)\<rparr>)
                       (train_lines m)\<rparr>)"
    using line_cell_changed_applies by blast
next
  assume "int_str 10 lw = Inr lid_w \<and> parse_ids typed_w = Some few \<and> length few < 2"
  then show "line_cell_changed m 1 (Some lw) (Some typed_w)
          = (Warned ''A line must have at least two stations.'', m)"
    using line_cell_changed_warns by blast
qed

theorem malformed_cell_edit_witness:
  "station_table_cell_changed example_float (\<lambda>r. ''0.00'') example_edited_gui 0 1
     = (Done, example_edited_gui)
   \<and> station_cell_changed example_float example_mountain 1 (Some ''1'') (Some ''abc'')
       (Some ''5'') = (Done, example_mountain)
   \<and> snd (line_cell_changed example_mountain 1 (Some ''0'') (Some ''x, 2'')) = example_mountain
   \<and> line_cell_changed example_mountain 1 (Some ''0'') (Some ''3, y, 1'') =
       (Done, example_mountain\<lparr>train_lines :=
          AList.update 0
            (\<lparr>station_ids_m = [1, 2, 3],
              line_actor_m = Line_actor [[10, 5, 4], [20, 0, 5], [0, 0, 1]] 100 [1, 0, 0],
              color_m = [1, 0, 0]\<rparr>
             \<lparr>station_ids_m := [3, 1],
              line_actor_m := Line_actor (known_coords (stations_m example_mountain) [3, 1])
                                100 [1, 0, 0]\<rparr>)
            (train_lines example_mountain)\<rparr>)
   \<and> line_cell_changed example_mountain 1 (Some ''0'') (Some ''x, 2'')
       = (Warned ''A line must have at least two stations.'', example_mountain)"
proof -
  have h1: "((0::nat) = 1 \<or> (1::nat) = 1)
      \<and> station_item (station_table example_edited_gui) 0 1 = Some ''abc''
      \<and> station_item (station_table example_edited_gui) 0 2 = Some ''5.00''
      \<and> (example_float ''abc'' = None \<or> example_float ''5.00'' = None)"
    by code_simp
  have h2: "example_float ''abc'' = None \<or> example_float ''5'' = None" by code_simp
  have h3: "length (digit_entries ''x, 2'') < 2" by code_simp
  have h4: "int_str 10 ''0'' = Inr 0
      \<and> map_of (train_lines example_mountain) 0 =
          Some \<lparr>station_ids_m = [1, 2, 3],
                line_actor_m = Line_actor [[10, 5, 4], [20, 0, 5], [0, 0, 1]] 100 [1, 0, 0],
                color_m = [1, 0, 0]\<rparr>
      \<and> parse_ids ''3, y, 1'' = Some [3, 1] \<and> 2 \<le> length [3, 1 :: int]"
    by code_simp
  have h5: "int_str 10 ''0'' = Inr 0 \<and> parse_ids ''x, 2'' = Some [2] \<and> length [2 :: int] < 2"
    by code_simp
  show ?thesis
    using malformed_cell_edit [where column = 1 and s = example_edited_gui and row = 0
        and xt = "''abc''" and yt = "''5.00''" and pyfloat = example_float
        and fmt = "\<lambda>r. ''0.00''" and xt' = "''abc''" and yt' = "''5''"
        and m = example_mountain and column' = 1 and sid_item = "Some ''1''"
        and column'' = 1 and lid_item = "Some ''0''" and typed = "''x, 2''"
        and lt = "''0''" and lid = 0 and typed' = "''3, y, 1''" and new_ids = "[3, 1]"
        and entry = "\<lparr>station_ids_m = [1, 2, 3],
                line_actor_m = Line_actor [[10, 5, 4], [20, 0, 5], [0, 0, 1]] 100 [1, 0, 0],
                color_m = [1, 0, 0]\<rparr>"
        and lw = "''0''" and lid_w = 0 and typed_w = "''x, 2''" and few = "[2]"]
      h1 h2 h3 h4 h5
    by simp
qed

text \<open>
  In mountain.py, typing \<open>1, x, 2\<close> into the station list of the line through
  stations 1, 2, 3 changes the line: the entry \<open>x\<close> is dropped and the list becomes
  \<open>[1, 2]\<close>.
\<close>

theorem line_cell_changed_counterexample:
  "\<not> isdigit (strip '' x'')
   \<and> line_cell_changed example_mountain 1 (Some ''0'') (Some ''1, x, 2'')
       = (Done, example_mountain\<lparr>train_lines :=
            [(0, \<lparr>station_ids_m = [1, 2],
                   line_actor_m = Line_actor [[10, 5, 4], [20, 0, 5]] 100 [1, 0, 0],
                   color_m = [1, 0, 0]\<rparr>)]\<rparr>)
   \<and> map (station_ids_m \<circ> snd) (train_lines example_mountain) = [[1, 2, 3]]"
  by code_simp


section \<open>Ids during a session\<close>

subsection \<open>mountain.py: ids come from counters that only grow\<close>

lemma has_key_iff: "has_key d k \<longleftrightarrow> k \<in> fst ` set d"
  by (simp add: has_key_def map_of_eq_None_iff)

lemma has_key_update: "has_key (AList.update k v d) j \<longleftrightarrow> j = k \<or> has_key d j"
  by (simp add: has_key_def update_conv')

lemma has_key_delete: "has_key (AList.delete k d) j \<longleftrightarrow> j \<noteq> k \<and> has_key d j"
  by (simp add: has_key_def delete_conv')

lemma grows_refl: "grows s s"
  by (simp add: grows_def)

lemma grows_trans: "grows s t \<Longrightarrow> grows t u \<Longrightarrow> grows s u"
  unfolding grows_def by (intro conjI allI impI; force)

lemma grows_lines_update:
  "has_key (train_lines s) lid \<Longrightarrow> grows s (s\<lparr>train_lines := AList.update lid e (train_lines s)\<rparr>)"
  by (auto simp: grows_def has_key_update distinct_update)

lemma grows_lines_delete: "grows s (s\<lparr>train_lines := AList.delete lid (train_lines s)\<rparr>)"
  by (auto simp: grows_def has_key_delete distinct_delete)

lemma grows_stations_update:
  "has_key (stations_m s) sid \<Longrightarrow> grows s (s\<lparr>stations_m := AList.update sid e (stations_m s)\<rparr>)"
  by (auto simp: grows_def has_key_update distinct_update)

lemma grows_stations_delete: "grows s (s\<lparr>stations_m := AList.delete sid (stations_m s)\<rparr>)"
  by (auto simp: grows_def has_key_delete distinct_delete)

lemma grows_update_line_actor: "grows s (snd (update_line_actor s lid))"
proof (cases "map_of (train_lines s) lid")
  case None
  then show ?thesis by (simp add: update_line_actor_def grows_refl)
next
  case (Some e)
  then have "has_key (train_lines s) lid" by (simp add: has_key_def)
  then show ?thesis
    using Some by (simp add: update_line_actor_def grows_refl grows_lines_update Let_def)
qed

lemma grows_update_lines_loop: "grows s (snd (update_lines_loop lids s))"
proof (induction lids arbitrary: s)
  case Nil
  show ?case by (simp add: grows_refl)
next
  case (Cons lid lids)
  obtain r s' where u: "update_line_actor s lid = (r, s')" by (cases "update_line_actor s lid")
  have g: "grows s s'" using grows_update_line_actor[of s lid] u by simp
  show ?case
  proof (cases r)
    case (Raised e)
    then show ?thesis using u g by simp
  next
    case Done
    then show ?thesis using u g Cons.IH[of s'] grows_trans by auto
  next
    case (Warned w)
    then show ?thesis using u g Cons.IH[of s'] grows_trans by auto
  qed
qed

lemma grows_update_all_lines: "grows s (snd (update_all_lines s))"
  by (simp add: update_all_lines_def grows_update_lines_loop)

lemma grows_delete_line_by_id: "grows s (delete_line_by_id s lid)"
  by (simp add: delete_line_by_id_def grows_refl grows_lines_delete)

lemma grows_fold_delete: "grows s (fold (\<lambda>lid st. delete_line_by_id st lid) lids s)"
proof (induction lids arbitrary: s)
  case Nil
  show ?case by (simp add: grows_refl)
next
  case (Cons lid lids)
  show ?case
    using grows_delete_line_by_id[of s lid] Cons.IH[of "delete_line_by_id s lid"] grows_trans
    by auto
qed

lemma grows_delete_station_loop:
  "grows s (fst (snd (delete_station_loop sid lids s acc)))"
proof (induction lids arbitrary: s acc)
  case Nil
  show ?case by (simp add: grows_refl)
next
  case (Cons lid lids)
  show ?case
  proof (cases "map_of (train_lines s) lid")
    case None
    then show ?thesis using Cons.IH by simp
  next
    case (Some e)
    show ?thesis
    proof (cases "sid \<in> set (station_ids_m e)")
      case False
      then show ?thesis using Some Cons.IH by simp
    next
      case True
      define e' where "e' = e\<lparr>station_ids_m := remove1 sid (station_ids_m e)\<rparr>"
      define s' where "s' = s\<lparr>train_lines := AList.update lid e' (train_lines s)\<rparr>"
      have hk: "has_key (train_lines s) lid" using Some by (simp add: has_key_def)
      have g1: "grows s s'" unfolding s'_def using hk by (rule grows_lines_update)
      show ?thesis
      proof (cases "length (station_ids_m e') < 2")
        case short: True
        have "grows s' (fst (snd (delete_station_loop sid lids s' (acc @ [lid]))))"
          by (rule Cons.IH)
        then have "grows s (fst (snd (delete_station_loop sid lids s' (acc @ [lid]))))"
          using g1 grows_trans by blast
        then show ?thesis
          using Some True short
          by (simp add: e'_def[symmetric] s'_def[symmetric] Let_def)
      next
        case long: False
        obtain r s'' where u: "update_line_actor s' lid = (r, s'')"
          by (cases "update_line_actor s' lid")
        have g2: "grows s' s''" using grows_update_line_actor[of s' lid] u by simp
        have g12: "grows s s''" using g1 g2 by (rule grows_trans)
        have "grows s'' (fst (snd (delete_station_loop sid lids s'' acc)))"
          by (rule Cons.IH)
        then have g3: "grows s (fst (snd (delete_station_loop sid lids s'' acc)))"
          using g12 grows_trans by blast
        show ?thesis
          using Some True long u g12 g3
          by (cases r) (simp_all add: e'_def[symmetric] s'_def[symmetric] Let_def)
      qed
    qed
  qed
qed

lemma grows_point_picked_m: "grows s (snd (point_picked_m s point))"
proof -
  have "grows s (s\<lparr>next_station_id_m := next_station_id_m s + 1,
                   stations_m := AList.update (next_station_id_m s) e (stations_m s)\<rparr>)" for e
    by (auto simp: grows_def has_key_update distinct_update)
  then show ?thesis
    by (auto simp: point_picked_m_def grows_refl Let_def split: option.splits sum.splits)
qed

lemma grows_station_cell_changed:
  "grows s (snd (station_cell_changed pyfloat s column sid_item x_item y_item))"
proof -
  have "grows s (snd (update_all_lines (s\<lparr>stations_m := AList.update sid e (stations_m s)\<rparr>)))"
    if "has_key (stations_m s) sid" for sid e
    using grows_stations_update[OF that, of e] grows_update_all_lines grows_trans by blast
  then show ?thesis
    by (auto simp: station_cell_changed_def grows_refl split: option.splits sum.splits)
qed

lemma grows_delete_station_m: "grows s (snd (delete_station_m s selected))"
proof (cases selected)
  case None
  then show ?thesis by (simp add: delete_station_m_def grows_refl)
next
  case (Some sid_text)
  show ?thesis
  proof (cases "int_str 10 sid_text")
    case (Inl e)
    then show ?thesis using Some by (simp add: delete_station_m_def grows_refl)
  next
    case (Inr sid)
    define s1 where "s1 = (if has_key (stations_m s) sid
                          then s\<lparr>stations_m := AList.delete sid (stations_m s)\<rparr> else s)"
    have g1: "grows s s1" by (simp add: s1_def grows_refl grows_stations_delete)
    obtain r s2 to_remove where
      l: "delete_station_loop sid (map fst (train_lines s1)) s1 [] = (r, s2, to_remove)"
      by (cases "delete_station_loop sid (map fst (train_lines s1)) s1 []") auto
    have g2: "grows s1 s2"
      using grows_delete_station_loop[of s1 sid "map fst (train_lines s1)" "[]"] l by simp
    have g12: "grows s s2" using g1 g2 by (rule grows_trans)
    have g3: "grows s (fold (\<lambda>lid st. delete_line_by_id st lid) to_remove s2)"
      using g12 grows_fold_delete grows_trans by blast
    show ?thesis
      using Some Inr l g12 g3
      by (cases r) (simp_all add: delete_station_m_def s1_def[symmetric] Let_def)
  qed
qed

lemma grows_add_line_m: "grows s (snd (add_line_m s dlg col))"
proof -
  have "grows s (s\<lparr>next_line_id_m := next_line_id_m s + 1,
                   train_lines := AList.update (next_line_id_m s) e (train_lines s)\<rparr>)" for e
    by (auto simp: grows_def has_key_update distinct_update)
  then show ?thesis
    by (auto simp: add_line_m_def grows_refl Let_def split: option.splits)
qed

lemma grows_edit_line_m: "grows s (snd (edit_line_m s selected dlg))"
proof -
  have "grows s (s\<lparr>train_lines := AList.update lid e' (train_lines s)\<rparr>)"
    if "map_of (train_lines s) lid = Some e" for lid e e'
    using that by (intro grows_lines_update) (simp add: has_key_def)
  then show ?thesis
    by (auto simp: edit_line_m_def grows_refl split: option.splits sum.splits)
qed

lemma grows_delete_line_m: "grows s (snd (delete_line_m s selected))"
  by (auto simp: delete_line_m_def grows_refl grows_delete_line_by_id
      split: option.splits sum.splits)

lemma grows_line_cell_changed:
  "grows s (snd (line_cell_changed s column lid_item text_item))"
proof -
  have "grows s (snd (update_line_actor
                        (s\<lparr>train_lines := AList.update lid e' (train_lines s)\<rparr>) lid))"
    if "map_of (train_lines s) lid = Some e" for lid e e'
  proof -
    have "grows s (s\<lparr>train_lines := AList.update lid e' (train_lines s)\<rparr>)"
      using that by (intro grows_lines_update) (simp add: has_key_def)
    then show ?thesis using grows_update_line_actor grows_trans by blast
  qed
  then show ?thesis
    by (auto simp: line_cell_changed_def grows_refl split: option.splits sum.splits)
qed

lemma grows_handle_m: "grows s (snd (handle_m pyfloat s ev))"
  by (cases ev)
     (simp_all add: handle_m_def grows_point_picked_m grows_station_cell_changed
        grows_delete_station_m grows_add_line_m grows_edit_line_m grows_delete_line_m
        grows_line_cell_changed)

subsection \<open>gui.py: ids are renumbered by every refresh\<close>

lemma update_fresh: "k \<notin> fst ` set al \<Longrightarrow> AList.update k v al = al @ [(k, v)]"
  by (induction al) auto

lemma upt_shift: "map (\<lambda>i. c + int i) [0..<Suc n] = c # map (\<lambda>i. c + 1 + int i) [0..<n]"
proof -
  have "[0..<Suc n] = 0 # map Suc [0..<n]"
    by (metis map_Suc_upt upt_conv_Cons zero_less_Suc)
  then show ?thesis by (simp add: comp_def add.assoc del: upt_Suc)
qed


lemma refresh_stations_keys:
  "\<forall>k \<in> fst ` set acc. k < c \<Longrightarrow>
   \<exists>n. map fst (refresh_stations_loop pyfloat rows c acc)
        = map fst acc @ map (\<lambda>i. c + int i) [0..<n]"
proof (induction rows arbitrary: c acc)
  case Nil
  have "map fst acc = map fst acc @ map (\<lambda>i. c + int i) [0..<0]" by simp
  then show ?case by (metis refresh_stations_loop.simps(1))
next
  case (Cons r rows)
  obtain a b x y where r: "r = (a, b, x, y)" by (cases r)
  have skip: "\<exists>n. map fst (refresh_stations_loop pyfloat rows c acc)
        = map fst acc @ map (\<lambda>i. c + int i) [0..<n]"
    using Cons.IH[OF Cons.prems] .
  have step: "\<exists>n. map fst (refresh_stations_loop pyfloat rows (c + 1) (AList.update c v acc))
        = map fst acc @ map (\<lambda>i. c + int i) [0..<n]" for v
  proof -
    have fresh: "c \<notin> fst ` set acc" using Cons.prems by auto
    have u: "AList.update c v acc = acc @ [(c, v)]" using fresh by (rule update_fresh)
    have "\<forall>k \<in> fst ` set (acc @ [(c, v)]). k < c + 1" using Cons.prems by auto
    from Cons.IH[OF this] obtain n where
      "map fst (refresh_stations_loop pyfloat rows (c + 1) (acc @ [(c, v)]))
        = map fst (acc @ [(c, v)]) @ map (\<lambda>i. c + 1 + int i) [0..<n]" by blast
    then have "map fst (refresh_stations_loop pyfloat rows (c + 1) (acc @ [(c, v)]))
        = map fst acc @ map (\<lambda>i. c + int i) [0..<Suc n]"
      by (simp only: upt_shift) simp
    then show ?thesis using u by metis
  qed
  show ?case
    using skip step by (simp add: r split: option.splits)
qed

lemma refresh_lines_keys:
  "\<forall>k \<in> fst ` set acc. k < c \<Longrightarrow>
   \<exists>n. map fst (snd (refresh_lines_loop sts rows c acc))
        = map fst acc @ map (\<lambda>i. c + int i) [0..<n]"
proof (induction rows arbitrary: c acc)
  case Nil
  have "map fst acc = map fst acc @ map (\<lambda>i. c + int i) [0..<0]" by simp
  then show ?case by (metis refresh_lines_loop.simps(1) snd_conv)
next
  case (Cons r rows)
  obtain a b x where r: "r = (a, b, x)" by (cases r)
  have stop: "\<exists>n. map fst acc = map fst acc @ map (\<lambda>i. c + int i) [0..<n]"
    by (rule exI[of _ 0]) simp
  have skip: "\<exists>n. map fst (snd (refresh_lines_loop sts rows c acc))
        = map fst acc @ map (\<lambda>i. c + int i) [0..<n]"
    using Cons.IH[OF Cons.prems] .
  have step: "\<exists>n. map fst (snd (refresh_lines_loop sts rows (c + 1) (AList.update c v acc)))
        = map fst acc @ map (\<lambda>i. c + int i) [0..<n]" for v
  proof -
    have fresh: "c \<notin> fst ` set acc" using Cons.prems by auto
    have u: "AList.update c v acc = acc @ [(c, v)]" using fresh by (rule update_fresh)
    have "\<forall>k \<in> fst ` set (acc @ [(c, v)]). k < c + 1" using Cons.prems by auto
    from Cons.IH[OF this] obtain n where
      "map fst (snd (refresh_lines_loop sts rows (c + 1) (acc @ [(c, v)])))
        = map fst (acc @ [(c, v)]) @ map (\<lambda>i. c + 1 + int i) [0..<n]" by blast
    then have "map fst (snd (refresh_lines_loop sts rows (c + 1) (acc @ [(c, v)])))
        = map fst acc @ map (\<lambda>i. c + int i) [0..<Suc n]"
      by (simp only: upt_shift) simp
    then show ?thesis using u by metis
  qed
  show ?case
    using stop skip step by (simp add: r Let_def split: option.splits sum.splits)
qed

lemma dense_from_keys:
  assumes "map fst d = map (\<lambda>i. 1 + int i) [0..<n]"
  shows "dense_ids d"
proof -
  have "length (map fst d) = n" using assms by simp
  then have "n = length d" by simp
  then show ?thesis using assms by (simp add: dense_ids_def)
qed

lemma dense_refresh_stations: "dense_ids (stations (refresh_stations_on_plot pyfloat s))"
  using refresh_stations_keys[of "[]" 1 pyfloat "station_table s"]
  by (auto simp: refresh_stations_on_plot_def intro: dense_from_keys)

lemma dense_refresh_lines: "dense_ids (lines (snd (refresh_lines_on_plot s)))"
  using refresh_lines_keys[of "[]" 1 "stations s" "line_table s"]
  by (auto simp: refresh_lines_on_plot_def split: prod.splits intro: dense_from_keys)

lemma stations_refresh_lines: "stations (snd (refresh_lines_on_plot s)) = stations s"
  by (simp add: refresh_lines_on_plot_def split: prod.splits)

lemma lines_refresh_stations: "lines (refresh_stations_on_plot pyfloat s) = lines s"
  by (simp add: refresh_stations_on_plot_def)

lemma inv_g_refresh:
  "dense_ids (lines s) \<Longrightarrow>
   inv_g (snd (refresh_lines_on_plot (refresh_stations_on_plot pyfloat s)))"
  by (simp add: inv_g_def dense_refresh_lines stations_refresh_lines dense_refresh_stations)

lemma inv_g_refresh_lines: "inv_g s \<Longrightarrow> inv_g (snd (refresh_lines_on_plot s))"
  by (simp add: inv_g_def dense_refresh_lines stations_refresh_lines)

lemma inv_g_tables:
  "inv_g s \<Longrightarrow> inv_g (s\<lparr>station_table := t\<rparr>)"
  "inv_g s \<Longrightarrow> inv_g (s\<lparr>line_table := u\<rparr>)"
  "inv_g s \<Longrightarrow> inv_g (s\<lparr>next_station_id := n\<rparr>)"
  "inv_g s \<Longrightarrow> inv_g (s\<lparr>dem := d\<rparr>)"
  by (simp_all add: inv_g_def)

lemma inv_g_point_picked: "inv_g s \<Longrightarrow> inv_g (snd (point_picked pyfloat fmt s point))"
  by (auto simp: point_picked_def Let_def inv_g_def dense_refresh_lines stations_refresh_lines
      dense_refresh_stations split: option.splits sum.splits)

lemma inv_g_station_table_cell_changed:
  "inv_g s \<Longrightarrow> inv_g (snd (station_table_cell_changed pyfloat fmt s row column))"
  by (auto simp: station_table_cell_changed_def inv_g_def dense_refresh_lines
      stations_refresh_lines dense_refresh_stations split: option.splits sum.splits)

lemma inv_g_delete_station: "inv_g s \<Longrightarrow> inv_g (snd (delete_station pyfloat s selected))"
  by (auto simp: delete_station_def inv_g_def dense_refresh_lines stations_refresh_lines
      dense_refresh_stations split: option.splits)

lemma inv_g_add_line: "inv_g s \<Longrightarrow> inv_g (snd (add_line s dlg))"
  by (auto simp: add_line_def inv_g_def dense_refresh_lines stations_refresh_lines
      split: option.splits sum.splits)

lemma inv_g_edit_line: "inv_g s \<Longrightarrow> inv_g (snd (edit_line s selected dlg))"
  by (auto simp: edit_line_def inv_g_def dense_refresh_lines stations_refresh_lines
      split: option.splits sum.splits)

lemma inv_g_delete_line: "inv_g s \<Longrightarrow> inv_g (snd (delete_line s selected))"
  by (auto simp: delete_line_def inv_g_def dense_refresh_lines stations_refresh_lines
      split: option.splits)

lemma inv_g_clear_all: "inv_g (clear_all s)"
  by (simp add: clear_all_def inv_g_def dense_ids_def)

lemma inv_g_import_data:
  assumes "inv_g s"
  shows "inv_g (snd (import_data pyfloat s loaded))"
proof (cases loaded)
  case None
  then show ?thesis using assms by (simp add: import_data_def)
next
  case (Some p)
  obtain sd ld where p: "p = (sd, ld)" by (cases p)
  define s2 where "s2 = refresh_stations_on_plot pyfloat (load_line_data (load_station_data s sd) ld)"
  obtain r s3 where r: "refresh_lines_on_plot s2 = (r, s3)" by (cases "refresh_lines_on_plot s2")
  have "inv_g (snd (refresh_lines_on_plot s2))"
    by (simp add: inv_g_def dense_refresh_lines stations_refresh_lines s2_def
        dense_refresh_stations)
  then have "inv_g s3" using r by simp
  then show ?thesis
    using Some p r by (cases r) (simp_all add: import_data_def s2_def[symmetric])
qed

lemma inv_g_load_new_dem: "inv_g s \<Longrightarrow> inv_g (snd (load_new_dem pyfloat s loaded))"
  by (auto simp: load_new_dem_def inv_g_def dense_refresh_lines stations_refresh_lines
      dense_refresh_stations split: option.splits)

lemma inv_g_handle:
  assumes i: "inv_g s"
  shows "inv_g (snd (handle pyfloat fmt s ev))"
proof (cases ev)
  case (Edit_station_cell row column typed)
  then show ?thesis
    using inv_g_station_table_cell_changed[OF inv_g_tables(1)[OF i]] by (simp add: handle_def)
next
  case (Edit_line_cell row column typed)
  then show ?thesis
    using inv_g_refresh_lines[OF inv_g_tables(2)[OF i]]
    by (simp add: handle_def line_table_cell_changed_def)
qed (simp_all add: i handle_def inv_g_point_picked inv_g_delete_station inv_g_add_line
      inv_g_edit_line inv_g_delete_line inv_g_clear_all inv_g_import_data inv_g_load_new_dem)

lemma inv_g_fold:
  "inv_g s \<Longrightarrow> inv_g (fold (\<lambda>ev s. snd (handle pyfloat fmt s ev)) evs s)"
  by (induction evs arbitrary: s) (simp_all add: inv_g_handle)

lemma inv_g_run: "inv_g (run pyfloat fmt d evs)"
  unfolding run_def by (rule inv_g_fold) (simp add: inv_g_def init_def dense_ids_def)

lemma dense_distinct: "dense_ids d \<Longrightarrow> distinct (map fst d)"
  by (simp add: dense_ids_def distinct_map inj_on_def)

lemma inv_m_grows: "inv_m s \<Longrightarrow> grows s s' \<Longrightarrow> inv_m s'"
  unfolding inv_m_def grows_def by (intro conjI allI impI; force)

lemma grows_fold: "grows s (fold (\<lambda>ev s. snd (handle_m pyfloat s ev)) evs s)"
proof (induction evs arbitrary: s)
  case Nil
  show ?case by (simp add: grows_refl)
next
  case (Cons ev evs)
  show ?case
    using grows_handle_m[of s pyfloat ev] Cons.IH[of "snd (handle_m pyfloat s ev)"] grows_trans
    by auto
qed

lemma run_m_append:
  "run_m pyfloat d (evs @ mid) = fold (\<lambda>ev s. snd (handle_m pyfloat s ev)) mid (run_m pyfloat d evs)"
  by (simp add: run_m_def)

lemma grows_run_m: "grows (run_m pyfloat d evs) (run_m pyfloat d (evs @ mid))"
  by (simp add: run_m_append grows_fold)

lemma inv_m_run: "inv_m (run_m pyfloat d evs)"
proof -
  have "inv_m (init_m d)" by (simp add: inv_m_def init_m_def has_key_def)
  moreover have "grows (init_m d) (run_m pyfloat d evs)"
    unfolding run_m_def by (rule grows_fold)
  ultimately show ?thesis by (rule inv_m_grows)
qed

lemma station_id_not_reused:
  assumes "has_key (stations_m (run_m pyfloat d evs)) k"
    "\<not> has_key (stations_m (run_m pyfloat d (evs @ mid))) k"
  shows "\<not> has_key (stations_m (run_m pyfloat d (evs @ mid @ later))) k"
proof -
  have "k < next_station_id_m (run_m pyfloat d evs)"
    using inv_m_run[of pyfloat d evs] assms(1) by (simp add: inv_m_def)
  moreover have "next_station_id_m (run_m pyfloat d evs)
                 \<le> next_station_id_m (run_m pyfloat d (evs @ mid))"
    using grows_run_m[of pyfloat d evs mid] by (simp add: grows_def)
  ultimately have lt: "k < next_station_id_m (run_m pyfloat d (evs @ mid))" by simp
  have "grows (run_m pyfloat d (evs @ mid)) (run_m pyfloat d ((evs @ mid) @ later))"
    by (rule grows_run_m)
  then show ?thesis using lt assms(2) by (auto simp: grows_def)
qed

lemma line_id_not_reused:
  assumes "has_key (train_lines (run_m pyfloat d evs)) k"
    "\<not> has_key (train_lines (run_m pyfloat d (evs @ mid))) k"
  shows "\<not> has_key (train_lines (run_m pyfloat d (evs @ mid @ later))) k"
proof -
  have "k < next_line_id_m (run_m pyfloat d evs)"
    using inv_m_run[of pyfloat d evs] assms(1) by (simp add: inv_m_def)
  moreover have "next_line_id_m (run_m pyfloat d evs)
                 \<le> next_line_id_m (run_m pyfloat d (evs @ mid))"
    using grows_run_m[of pyfloat d evs mid] by (simp add: grows_def)
  ultimately have lt: "k < next_line_id_m (run_m pyfloat d (evs @ mid))" by simp
  have "grows (run_m pyfloat d (evs @ mid)) (run_m pyfloat d ((evs @ mid) @ later))"
    by (rule grows_run_m)
  then show ?thesis using lt assms(2) by (auto simp: grows_def)
qed

text \<open>
  Claim C3, as the code has it.  At every point of a session, in both editors, no two
  stations and no two lines share an id within their registry.  In mountain.py every id in
  a registry is below the registry's counter, the counters never go down, and an id that
  has left a registry never comes back.  In gui.py the ids of both registries are the
  positions \<open>1, ..., n\<close>, given anew whenever the registry is rebuilt from its table.
\<close>

theorem ids_in_sessions:
  "dense_ids (stations (run pyfloat fmt d evs)) \<and> dense_ids (lines (run pyfloat fmt d evs))
   \<and> distinct (map fst (stations (run pyfloat fmt d evs)))
   \<and> distinct (map fst (lines (run pyfloat fmt d evs)))
   \<and> distinct (map fst (stations_m (run_m pyfloat d evs_m)))
   \<and> distinct (map fst (train_lines (run_m pyfloat d evs_m)))
   \<and> (\<forall>i. has_key (stations_m (run_m pyfloat d evs_m)) i \<longrightarrow>
          i < next_station_id_m (run_m pyfloat d evs_m))
   \<and> (\<forall>i. has_key (train_lines (run_m pyfloat d evs_m)) i \<longrightarrow>
          i < next_line_id_m (run_m pyfloat d evs_m))
   \<and> next_station_id_m (run_m pyfloat d evs_m) \<le> next_station_id_m (run_m pyfloat d (evs_m @ mid))
   \<and> next_line_id_m (run_m pyfloat d evs_m) \<le> next_line_id_m (run_m pyfloat d (evs_m @ mid))
   \<and> (has_key (stations_m (run_m pyfloat d evs_m)) k
        \<and> \<not> has_key (stations_m (run_m pyfloat d (evs_m @ mid))) k \<longrightarrow>
        \<not> has_key (stations_m (run_m pyfloat d (evs_m @ mid @ later))) k)
   \<and> (has_key (train_lines (run_m pyfloat d evs_m)) j
        \<and> \<not> has_key (train_lines (run_m pyfloat d (evs_m @ mid))) j \<longrightarrow>
        \<not> has_key (train_lines (run_m pyfloat d (evs_m @ mid @ later))) j)"
proof -
  have g: "dense_ids (stations (run pyfloat fmt d evs))" "dense_ids (lines (run pyfloat fmt d evs))"
    using inv_g_run[of pyfloat fmt d evs] by (simp_all add: inv_g_def)
  have gd: "distinct (map fst (stations (run pyfloat fmt d evs)))"
    "distinct (map fst (lines (run pyfloat fmt d evs)))"
    using g by (simp_all add: dense_distinct)
  have m: "distinct (map fst (stations_m (run_m pyfloat d evs_m)))"
    "distinct (map fst (train_lines (run_m pyfloat d evs_m)))"
    "\<forall>i. has_key (stations_m (run_m pyfloat d evs_m)) i \<longrightarrow>
          i < next_station_id_m (run_m pyfloat d evs_m)"
    "\<forall>i. has_key (train_lines (run_m pyfloat d evs_m)) i \<longrightarrow>
          i < next_line_id_m (run_m pyfloat d evs_m)"
    using inv_m_run[of pyfloat d evs_m] by (simp_all add: inv_m_def)
  have c: "next_station_id_m (run_m pyfloat d evs_m) \<le> next_station_id_m (run_m pyfloat d (evs_m @ mid))"
    "next_line_id_m (run_m pyfloat d evs_m) \<le> next_line_id_m (run_m pyfloat d (evs_m @ mid))"
    using grows_run_m[of pyfloat d evs_m mid] by (simp_all add: grows_def)
  have r1: "has_key (stations_m (run_m pyfloat d evs_m)) k
        \<and> \<not> has_key (stations_m (run_m pyfloat d (evs_m @ mid))) k \<longrightarrow>
        \<not> has_key (stations_m (run_m pyfloat d (evs_m @ mid @ later))) k"
    using station_id_not_reused[of pyfloat d evs_m k mid later] by blast
  have r2: "has_key (train_lines (run_m pyfloat d evs_m)) j
        \<and> \<not> has_key (train_lines (run_m pyfloat d (evs_m @ mid))) j \<longrightarrow>
        \<not> has_key (train_lines (run_m pyfloat d (evs_m @ mid @ later))) j"
    using line_id_not_reused[of pyfloat d evs_m j mid later] by blast
  show ?thesis
    by (intro conjI) (rule g gd m c r1 r2)+
qed

theorem ids_in_sessions_witness:
  "has_key (stations_m (run_m example_float (Some example_dem)
       [Pick_m (Some (10, 5, 0)), Pick_m (Some (20, 0, 0)), Pick_m (Some (0, 0, 0)),
        Add_line_m (Some [1, 2, 3]) [1, 0, 0]])) 1
   \<and> \<not> has_key (stations_m (run_m example_float (Some example_dem)
       ([Pick_m (Some (10, 5, 0)), Pick_m (Some (20, 0, 0)), Pick_m (Some (0, 0, 0)),
         Add_line_m (Some [1, 2, 3]) [1, 0, 0]]
        @ [Delete_station_m (Some ''1''), Delete_line_m (Some ''0'')]))) 1
   \<and> \<not> has_key (stations_m (run_m example_float (Some example_dem)
       ([Pick_m (Some (10, 5, 0)), Pick_m (Some (20, 0, 0)), Pick_m (Some (0, 0, 0)),
         Add_line_m (Some [1, 2, 3]) [1, 0, 0]]
        @ [Delete_station_m (Some ''1''), Delete_line_m (Some ''0'')]
        @ [Pick_m (Some (0, 5, 0)), Add_line_m (Some [2, 3]) [0, 0, 1]]))) 1
   \<and> has_key (train_lines (run_m example_float (Some example_dem)
       [Pick_m (Some (10, 5, 0)), Pick_m (Some (20, 0, 0)), Pick_m (Some (0, 0, 0)),
        Add_line_m (Some [1, 2, 3]) [1, 0, 0]])) 0
   \<and> \<not> has_key (train_lines (run_m example_float (Some example_dem)
       ([Pick_m (Some (10, 5, 0)), Pick_m (Some (20, 0, 0)), Pick_m (Some (0, 0, 0)),
         Add_line_m (Some [1, 2, 3]) [1, 0, 0]]
        @ [Delete_station_m (Some ''1''), Delete_line_m (Some ''0'')]))) 0
   \<and> \<not> has_key (train_lines (run_m example_float (Some example_dem)
       ([Pick_m (Some (10, 5, 0)), Pick_m (Some (20, 0, 0)), Pick_m (Some (0, 0, 0)),
         Add_line_m (Some [1, 2, 3]) [1, 0, 0]]
        @ [Delete_station_m (Some ''1''), Delete_line_m (Some ''0'')]
        @ [Pick_m (Some (0, 5, 0)), Add_line_m (Some [2, 3]) [0, 0, 1]]))) 0"
proof -
  let ?E = "[Pick_m (Some (10, 5, 0)), Pick_m (Some (20, 0, 0)), Pick_m (Some (0, 0, 0)),
             Add_line_m (Some [1, 2, 3]) [1, 0, 0]]"
  let ?M = "[Delete_station_m (Some ''1''), Delete_line_m (Some ''0'')]"
  let ?L = "[Pick_m (Some (0, 5, 0)), Add_line_m (Some [2, 3]) [0, 0, 1]]"
  have h1: "has_key (stations_m (run_m example_float (Some example_dem) ?E)) 1
            \<and> \<not> has_key (stations_m (run_m example_float (Some example_dem) (?E @ ?M))) 1"
    by code_simp
  have h2: "has_key (train_lines (run_m example_float (Some example_dem) ?E)) 0
            \<and> \<not> has_key (train_lines (run_m example_float (Some example_dem) (?E @ ?M))) 0"
    by code_simp
  show ?thesis
    using ids_in_sessions [where pyfloat = example_float and d = "Some example_dem"
        and evs_m = ?E and mid = ?M and later = ?L and k = 1 and j = 0] h1 h2
    by blast
qed

text \<open>
  In gui.py, after three stations were picked and the first was deleted, id 1, which was
  the id of the deleted Station 1, is the id of Station 2.
\<close>

theorem station_id_reused_counterexample:
  "map (\<lambda>(i, st). (i, name st))
     (stations (run example_float example_fmt (Some example_dem)
        [Pick (Some (10, 5, 0)), Pick (Some (20, 0, 0)), Pick (Some (0, 0, 0))]))
   = [(1, ''Station 1''), (2, ''Station 2''), (3, ''Station 3'')]
   \<and> map (\<lambda>(i, st). (i, name st))
     (stations (run example_float example_fmt (Some example_dem)
        ([Pick (Some (10, 5, 0)), Pick (Some (20, 0, 0)), Pick (Some (0, 0, 0))]
         @ [Delete_station (Some 0)])))
   = [(1, ''Station 2''), (2, ''Station 3'')]"
  by code_simp



section \<open>Deleting a station\<close>

lemma loop_drops_update:
  "k \<noteq> lid \<Longrightarrow> loop_drops sid (AList.update lid e ls) k = loop_drops sid ls k"
  by (simp add: loop_drops_def update_conv')

lemma filter_drops_update:
  assumes "lid \<notin> set lids"
  shows "filter (loop_drops sid (AList.update lid e ls)) lids = filter (loop_drops sid ls) lids"
proof (rule filter_cong)
  show "lids = lids" by simp
next
  fix x assume "x \<in> set lids"
  then have "x \<noteq> lid" using assms by auto
  then show "loop_drops sid (AList.update lid e ls) x = loop_drops sid ls x"
    by (rule loop_drops_update)
qed

lemma loop_post_skip:
  assumes "loop_post sid lids s acc res" "lid \<notin> set lids"
    "\<not> loop_drops sid (train_lines s) lid"
    "map_option (loop_entry (stations_m s) sid) (map_of (train_lines s) lid)
     = map_of (train_lines s) lid"
  shows "loop_post sid (lid # lids) s acc res"
  using assms unfolding loop_post_def by (auto split: prod.splits)

lemma loop_post_step:
  assumes "loop_post sid lids s1 acc1 res" "lid \<notin> set lids"
    "stations_m s1 = stations_m s"
    "train_lines s1 = AList.update lid e1 (train_lines s)"
    "map_of (train_lines s) lid = Some e" "e1 = loop_entry (stations_m s) sid e"
    "acc1 = (if loop_drops sid (train_lines s) lid then acc @ [lid] else acc)"
  shows "loop_post sid (lid # lids) s acc res"
proof -
  obtain r s' rem where res: "res = (r, s', rem)" by (cases res)
  have p: "r = Done" "rem = acc1 @ filter (loop_drops sid (train_lines s1)) lids"
    "stations_m s' = stations_m s1"
    "\<And>k. map_of (train_lines s') k =
           (if k \<in> set lids
            then map_option (loop_entry (stations_m s1) sid) (map_of (train_lines s1) k)
            else map_of (train_lines s1) k)"
    using assms(1) unfolding loop_post_def res by auto
  have f: "filter (loop_drops sid (train_lines s1)) lids
           = filter (loop_drops sid (train_lines s)) lids"
    unfolding assms(4) using assms(2) by (rule filter_drops_update)
  have rem: "rem = acc @ filter (loop_drops sid (train_lines s)) (lid # lids)"
    using p(2) f assms(7) by simp
  have m: "map_of (train_lines s') k =
           (if k \<in> set (lid # lids)
            then map_option (loop_entry (stations_m s) sid) (map_of (train_lines s) k)
            else map_of (train_lines s) k)" for k
  proof (cases "k = lid")
    case True
    then have "map_of (train_lines s') k = map_of (train_lines s1) lid"
      using p(4)[of k] assms(2) by simp
    also have "\<dots> = Some e1" by (simp add: assms(4) update_conv')
    finally show ?thesis using True assms(5,6) by simp
  next
    case False
    then have "map_of (train_lines s1) k = map_of (train_lines s) k"
      by (simp add: assms(4) update_conv')
    then show ?thesis using p(4)[of k] False assms(3) by simp
  qed
  show ?thesis
    unfolding loop_post_def res using p(1) rem p(3) assms(3) m by simp
qed

lemma delete_station_loop_post:
  "distinct lids \<Longrightarrow> loop_post sid lids s acc (delete_station_loop sid lids s acc)"
proof (induction lids arbitrary: s acc)
  case Nil
  show ?case by (simp add: loop_post_def)
next
  case (Cons lid lids)
  then have nin: "lid \<notin> set lids" and dl: "distinct lids" by simp_all
  show ?case
  proof (cases "map_of (train_lines s) lid")
    case None
    have "loop_post sid lids s acc (delete_station_loop sid lids s acc)"
      using Cons.IH[OF dl] .
    then have "loop_post sid (lid # lids) s acc (delete_station_loop sid lids s acc)"
      using nin None by (intro loop_post_skip) (simp_all add: loop_drops_def)
    then show ?thesis using None by simp
  next
    case (Some e)
    show ?thesis
    proof (cases "sid \<in> set (station_ids_m e)")
      case False
      have "loop_post sid lids s acc (delete_station_loop sid lids s acc)"
        using Cons.IH[OF dl] .
      then have "loop_post sid (lid # lids) s acc (delete_station_loop sid lids s acc)"
        using nin Some False
        by (intro loop_post_skip) (simp_all add: loop_drops_def loop_entry_def)
      then show ?thesis using Some False by simp
    next
      case True
      define e' where "e' = e\<lparr>station_ids_m := remove1 sid (station_ids_m e)\<rparr>"
      define s' where "s' = s\<lparr>train_lines := AList.update lid e' (train_lines s)\<rparr>"
      show ?thesis
      proof (cases "length (station_ids_m e') < 2")
        case short: True
        have d: "loop_drops sid (train_lines s) lid"
          using Some True short by (simp add: loop_drops_def e'_def)
        have "loop_post sid lids s' (acc @ [lid])
                (delete_station_loop sid lids s' (acc @ [lid]))"
          using Cons.IH[OF dl] .
        then have "loop_post sid (lid # lids) s acc
                (delete_station_loop sid lids s' (acc @ [lid]))"
        proof (rule loop_post_step)
          show "lid \<notin> set lids" by (rule nin)
          show "stations_m s' = stations_m s" by (simp add: s'_def)
          show "train_lines s' = AList.update lid e' (train_lines s)" by (simp add: s'_def)
          show "map_of (train_lines s) lid = Some e" by (rule Some)
          show "e' = loop_entry (stations_m s) sid e"
            using True short by (simp add: loop_entry_def e'_def Let_def)
          show "acc @ [lid] = (if loop_drops sid (train_lines s) lid then acc @ [lid] else acc)"
            using d by simp
        qed
        then show ?thesis
          using Some True short by (simp add: e'_def[symmetric] s'_def[symmetric] Let_def)
      next
        case long: False
        define e'' where
          "e'' = e'\<lparr>line_actor_m :=
                     Line_actor (known_coords (stations_m s') (station_ids_m e')) 100
                       (color_m e')\<rparr>"
        define s'' where "s'' = s'\<lparr>train_lines := AList.update lid e'' (train_lines s')\<rparr>"
        have ms': "map_of (train_lines s') lid = Some e'" by (simp add: s'_def update_conv')
        have u: "update_line_actor s' lid = (Done, s'')"
          using ms' long by (simp add: update_line_actor_def Let_def e''_def s''_def)
        have d: "\<not> loop_drops sid (train_lines s) lid"
          using Some long by (simp add: loop_drops_def e'_def)
        have "loop_post sid lids s'' acc (delete_station_loop sid lids s'' acc)"
          using Cons.IH[OF dl] .
        then have "loop_post sid (lid # lids) s acc (delete_station_loop sid lids s'' acc)"
        proof (rule loop_post_step)
          show "lid \<notin> set lids" by (rule nin)
          show "stations_m s'' = stations_m s" by (simp add: s''_def s'_def)
          show "train_lines s'' = AList.update lid e'' (train_lines s)"
            by (simp add: s''_def s'_def)
          show "map_of (train_lines s) lid = Some e" by (rule Some)
          show "e'' = loop_entry (stations_m s) sid e"
            using True long by (simp add: loop_entry_def e''_def e'_def s'_def Let_def)
          show "acc = (if loop_drops sid (train_lines s) lid then acc @ [lid] else acc)"
            using d by simp
        qed
        then show ?thesis
          using Some True long u by (simp add: e'_def[symmetric] s'_def[symmetric] Let_def)
      qed
    qed
  qed
qed

lemma map_of_delete_line_by_id:
  "map_of (train_lines (delete_line_by_id s lid)) = (map_of (train_lines s))(lid := None)"
  by (auto simp: delete_line_by_id_def has_key_def delete_conv')

lemma fold_delete_lines:
  "map_of (train_lines (fold (\<lambda>lid st. delete_line_by_id st lid) rem s)) k
     = (if k \<in> set rem then None else map_of (train_lines s) k)
   \<and> stations_m (fold (\<lambda>lid st. delete_line_by_id st lid) rem s) = stations_m s"
proof (induction rem arbitrary: s)
  case Nil
  show ?case by simp
next
  case (Cons lid rem)
  have st: "stations_m (delete_line_by_id s lid) = stations_m s"
    by (simp add: delete_line_by_id_def)
  show ?case
    using Cons.IH[of "delete_line_by_id s lid"] st
    by (simp add: map_of_delete_line_by_id)
qed

lemma known_coords_length:
  "\<forall>i \<in> set ids. has_key sts i \<Longrightarrow> length (known_coords sts ids) = length ids"
proof (induction ids)
  case Nil
  show ?case by (simp add: known_coords_def map_filter_simps)
next
  case (Cons i ids)
  then obtain v where v: "map_of sts i = Some v" by (auto simp: has_key_def)
  have "length (known_coords sts ids) = length ids" using Cons by simp
  then show ?case using v by (simp add: known_coords_def map_filter_simps)
qed

lemma delete_station_m_cascade:
  assumes i: "int_str 10 sid_text = Inr sid"
    and dk: "distinct (map fst (train_lines m))"
    and di: "\<forall>e \<in> snd ` set (train_lines m).
               distinct (station_ids_m e)
               \<and> (\<forall>i \<in> set (station_ids_m e). has_key (stations_m m) i)"
  shows "\<exists>m'. delete_station_m m (Some sid_text) = (Done, m')
           \<and> stations_m m' = AList.delete sid (stations_m m)
           \<and> (\<forall>lid. map_of (train_lines m') lid
                 = Option.bind (map_of (train_lines m) lid) (cascade_entry (stations_m m') sid))"
proof -
  define s1 where "s1 = (if has_key (stations_m m) sid
                        then m\<lparr>stations_m := AList.delete sid (stations_m m)\<rparr> else m)"
  have st1: "stations_m s1 = AList.delete sid (stations_m m)"
    by (simp add: s1_def has_key_def map_of_eq_None_iff)
  have tl1: "train_lines s1 = train_lines m" by (simp add: s1_def)
  let ?lids = "map fst (train_lines s1)"
  obtain r s2 rem where l: "delete_station_loop sid ?lids s1 [] = (r, s2, rem)"
    by (cases "delete_station_loop sid ?lids s1 []") auto
  have "loop_post sid ?lids s1 [] (delete_station_loop sid ?lids s1 [])"
    using dk tl1 by (intro delete_station_loop_post) simp
  then have p: "r = Done" "rem = filter (loop_drops sid (train_lines m)) (map fst (train_lines m))"
    "stations_m s2 = AList.delete sid (stations_m m)"
    "\<And>k. map_of (train_lines s2) k =
           (if k \<in> set (map fst (train_lines m))
            then map_option (loop_entry (AList.delete sid (stations_m m)) sid)
                   (map_of (train_lines m) k)
            else map_of (train_lines m) k)"
    unfolding loop_post_def l using st1 tl1 by auto
  define m' where "m' = fold (\<lambda>lid st. delete_line_by_id st lid) rem s2"
  have res: "delete_station_m m (Some sid_text) = (Done, m')"
    using i l p(1) by (simp add: delete_station_m_def s1_def[symmetric] m'_def Let_def)
  have stm: "stations_m m' = AList.delete sid (stations_m m)"
    using fold_delete_lines[of rem s2] p(3) by (simp add: m'_def)
  have look: "map_of (train_lines m') lid
                 = Option.bind (map_of (train_lines m) lid) (cascade_entry (stations_m m') sid)"
    for lid
  proof (cases "map_of (train_lines m) lid")
    case None
    then have nk: "lid \<notin> set (map fst (train_lines m))"
      by (simp add: map_of_eq_None_iff)
    then have "lid \<notin> set rem" using p(2) by simp
    then have "map_of (train_lines m') lid = map_of (train_lines s2) lid"
      using fold_delete_lines[of rem s2 lid] by (simp add: m'_def)
    then show ?thesis using p(4)[of lid] nk None by simp
  next
    case (Some e)
    then have mem: "(lid, e) \<in> set (train_lines m)" by (rule map_of_SomeD)
    then have k: "lid \<in> set (map fst (train_lines m))" by force
    have em: "e \<in> snd ` set (train_lines m)" using mem by force
    then have "distinct (station_ids_m e)" using di by blast
    then have ra: "remove1 sid (station_ids_m e) = removeAll sid (station_ids_m e)"
      by (rule distinct_remove1_removeAll)
    have "\<forall>i \<in> set (station_ids_m e). has_key (stations_m m) i" using em di by blast
    then have "\<forall>i \<in> set (removeAll sid (station_ids_m e)). has_key (stations_m m') i"
      by (simp add: stm has_key_delete)
    then have len: "length (known_coords (stations_m m') (removeAll sid (station_ids_m e)))
                    = length (removeAll sid (station_ids_m e))"
      by (rule known_coords_length)
    show ?thesis
    proof (cases "loop_drops sid (train_lines m) lid")
      case True
      then have "lid \<in> set rem" using p(2) k by simp
      then have "map_of (train_lines m') lid = None"
        using fold_delete_lines[of rem s2 lid] by (simp add: m'_def)
      moreover have "cascade_entry (stations_m m') sid e = None"
        using True Some ra len by (simp add: loop_drops_def cascade_entry_def)
      ultimately show ?thesis using Some by simp
    next
      case False
      then have "lid \<notin> set rem" using p(2) by simp
      then have "map_of (train_lines m') lid = map_of (train_lines s2) lid"
        using fold_delete_lines[of rem s2 lid] by (simp add: m'_def)
      also have "\<dots> = Some (loop_entry (AList.delete sid (stations_m m)) sid e)"
        using p(4)[of lid] k Some by simp
      also have "\<dots> = cascade_entry (stations_m m') sid e"
        using False Some ra stm len
        by (auto simp: loop_drops_def cascade_entry_def loop_entry_def Let_def)
      finally show ?thesis using Some by simp
    qed
  qed
  show ?thesis using res stm look by blast
qed

lemma int_str_error: "int_str b t = Inl e \<Longrightarrow> e = ValueError"
  by (auto simp: int_str_def Let_def split: prod.splits list.splits option.splits)

lemma hex_to_rgb_error: "hex_to_rgb t = Inl e \<Longrightarrow> e = ValueError"
  by (auto simp: hex_to_rgb_def Let_def dest: int_str_error split: if_splits sum.splits)

lemma refresh_lines_rows:
  "\<forall>k \<in> fst ` set acc. k < c \<Longrightarrow>
   map snd (snd (refresh_lines_loop sts rows c acc))
     = map snd acc
       @ List.map_filter (row_line sts) (takeWhile (\<lambda>r. \<not> row_raises sts r) rows)
   \<and> fst (refresh_lines_loop sts rows c acc)
       = (if list_ex (row_raises sts) rows then Raised ValueError else Done)"
proof (induction rows arbitrary: c acc)
  case Nil
  show ?case by (simp add: map_filter_simps)
next
  case (Cons r rows)
  obtain a b x where r: "r = (a, b, x)" by (cases r)
  show ?case
  proof (cases "row_raises sts r")
    case True
    then have "refresh_lines_loop sts (r # rows) c acc = (Raised ValueError, acc)"
      by (auto simp: r row_raises_def Let_def isl_def dest: hex_to_rgb_error
          split: option.splits)
    then show ?thesis using True by (simp add: map_filter_simps)
  next
    case False
    show ?thesis
    proof (cases "row_line sts r")
      case None
      have "refresh_lines_loop sts (r # rows) c acc = refresh_lines_loop sts rows c acc"
        using None False
        by (auto simp: r row_line_def row_raises_def Let_def
            split: option.splits sum.splits if_splits)
      then show ?thesis
        using Cons.IH[OF Cons.prems] None False by (simp add: map_filter_simps)
    next
      case (Some v)
      have fresh: "c \<notin> fst ` set acc" using Cons.prems by auto
      have u: "AList.update c v acc = acc @ [(c, v)]"
        using fresh by (rule update_fresh)
      have step: "refresh_lines_loop sts (r # rows) c acc
                  = refresh_lines_loop sts rows (c + 1) (acc @ [(c, v)])"
        using Some u
        by (auto simp: r row_line_def Let_def build_line_actor_def
            split: option.splits sum.splits if_splits)
      have b: "\<forall>k \<in> fst ` set (acc @ [(c, v)]). k < c + 1" using Cons.prems by auto
      show ?thesis
        using Cons.IH[OF b] step Some False by (simp add: map_filter_simps)
    qed
  qed
qed

lemma delete_station_gui:
  "station_table (snd (delete_station pyfloat s (Some row))) = remove_row row (station_table s)
   \<and> line_table (snd (delete_station pyfloat s (Some row))) = line_table s
   \<and> stations (snd (delete_station pyfloat s (Some row)))
       = refresh_stations_loop pyfloat (remove_row row (station_table s)) 1 []
   \<and> map snd (lines (snd (delete_station pyfloat s (Some row))))
       = List.map_filter (row_line (stations (snd (delete_station pyfloat s (Some row)))))
           (takeWhile
              (\<lambda>r. \<not> row_raises (stations (snd (delete_station pyfloat s (Some row)))) r)
              (line_table s))
   \<and> fst (delete_station pyfloat s (Some row))
       = (if list_ex (row_raises (stations (snd (delete_station pyfloat s (Some row)))))
               (line_table s)
          then Raised ValueError else Done)"
proof -
  define s1 where "s1 = refresh_stations_on_plot pyfloat
                          (s\<lparr>station_table := remove_row row (station_table s)\<rparr>)"
  have d: "delete_station pyfloat s (Some row) = refresh_lines_on_plot s1"
    by (simp add: delete_station_def s1_def)
  obtain r ls where l: "refresh_lines_loop (stations s1) (line_table s1) 1 [] = (r, ls)"
    by (cases "refresh_lines_loop (stations s1) (line_table s1) 1 []")
  have res: "refresh_lines_on_plot s1 = (r, s1\<lparr>lines := ls\<rparr>)"
    using l by (simp add: refresh_lines_on_plot_def)
  have t: "station_table s1 = remove_row row (station_table s)" "line_table s1 = line_table s"
    "stations s1 = refresh_stations_loop pyfloat (remove_row row (station_table s)) 1 []"
    by (simp_all add: s1_def refresh_stations_on_plot_def)
  have rows: "map snd ls = List.map_filter (row_line (stations s1))
                             (takeWhile (\<lambda>r. \<not> row_raises (stations s1) r) (line_table s))"
    "r = (if list_ex (row_raises (stations s1)) (line_table s) then Raised ValueError else Done)"
    using refresh_lines_rows[of "[]" 1 "stations s1" "line_table s1"] l t(2) by simp_all
  show ?thesis
    unfolding d res using t rows by simp
qed

text \<open>
  Claim C2, as the code has it.  In mountain.py, when the keys of the line registry are
  distinct, no line lists a station twice and every station that a line lists is in the
  stations registry, deleting a station removes it from the stations registry and from the
  reference list of every line; a line that referred to it and is left with fewer than two
  resolvable references is deleted; a line that referred to it and keeps two or more is
  kept, with its curve rebuilt from the current coordinates of the remaining stations; a
  line that did not refer to it stays as it is.  In gui.py deleting a station removes its
  row; the rows of the line table are not edited, so the name of the deleted station stays
  in the reference lists.  The lines registry is rebuilt row by row and the rebuild stops
  with a \<open>ValueError\<close> at the first row that has all three cells, a name and a station
  list that are not blank, two or more names that resolve to stations, and a colour text
  that is rejected.  The registry then holds, in order, exactly the rows before that stop that have
  all three cells, a name and a station list that are not blank, and two or more names
  that resolve to stations, each with its curve through the coordinates of those stations;
  the handler returns without error exactly when no row stops the rebuild.
\<close>

theorem delete_station_cascade:
  "(int_str 10 sid_text = Inr sid \<and> distinct (map fst (train_lines m))
      \<and> (\<forall>e \<in> snd ` set (train_lines m).
             distinct (station_ids_m e)
             \<and> (\<forall>i \<in> set (station_ids_m e). has_key (stations_m m) i)) \<longrightarrow>
      (\<exists>m'. delete_station_m m (Some sid_text) = (Done, m')
         \<and> stations_m m' = AList.delete sid (stations_m m)
         \<and> (\<forall>lid. map_of (train_lines m') lid
               = Option.bind (map_of (train_lines m) lid) (cascade_entry (stations_m m') sid))))
   \<and> station_table (snd (delete_station pyfloat s (Some row))) = remove_row row (station_table s)
   \<and> line_table (snd (delete_station pyfloat s (Some row))) = line_table s
   \<and> stations (snd (delete_station pyfloat s (Some row)))
       = refresh_stations_loop pyfloat (remove_row row (station_table s)) 1 []
   \<and> map snd (lines (snd (delete_station pyfloat s (Some row))))
       = List.map_filter (row_line (stations (snd (delete_station pyfloat s (Some row)))))
           (takeWhile
              (\<lambda>r. \<not> row_raises (stations (snd (delete_station pyfloat s (Some row)))) r)
              (line_table s))
   \<and> fst (delete_station pyfloat s (Some row))
       = (if list_ex (row_raises (stations (snd (delete_station pyfloat s (Some row)))))
               (line_table s)
          then Raised ValueError else Done)"
  using delete_station_m_cascade[of sid_text sid m] delete_station_gui[of pyfloat s row]
  by blast

theorem delete_station_cascade_witness:
  "(\<exists>m'. delete_station_m example_mountain (Some ''1'') = (Done, m')
         \<and> stations_m m' = AList.delete 1 (stations_m example_mountain)
         \<and> (\<forall>lid. map_of (train_lines m') lid
               = Option.bind (map_of (train_lines example_mountain) lid)
                   (cascade_entry (stations_m m') 1)))
   \<and> map (\<lambda>(k, e). (k, station_ids_m e, line_actor_m e))
        (train_lines (snd (delete_station_m example_mountain (Some ''1''))))
       = [(0, [2, 3], Line_actor [[20, 0, 5], [0, 0, 1]] 100 [1, 0, 0])]
   \<and> map snd (lines (snd (delete_station example_float example_gui (Some 0))))
       = List.map_filter
           (row_line (stations (snd (delete_station example_float example_gui (Some 0)))))
           (takeWhile
              (\<lambda>r. \<not> row_raises
                         (stations (snd (delete_station example_float example_gui (Some 0)))) r)
              (line_table example_gui))
   \<and> fst (delete_station example_float example_gui (Some 0)) = Done
   \<and> map (\<lambda>(k, e). (k, station_ids e, line_actor e))
        (lines (snd (delete_station example_float example_gui (Some 0))))
       = [(1, [''Station 1'', ''Station 2'', ''Station 3''],
           Some (Line_actor [[20, 0, 5], [0, 0, 1]] 50 [1, 0, 0]))]"
proof -
  have h1: "int_str 10 ''1'' = Inr 1 \<and> distinct (map fst (train_lines example_mountain))
            \<and> (\<forall>e \<in> snd ` set (train_lines example_mountain).
                   distinct (station_ids_m e)
                   \<and> (\<forall>i \<in> set (station_ids_m e). has_key (stations_m example_mountain) i))"
    by code_simp
  have c1: "map (\<lambda>(k, e). (k, station_ids_m e, line_actor_m e))
        (train_lines (snd (delete_station_m example_mountain (Some ''1''))))
       = [(0, [2, 3], Line_actor [[20, 0, 5], [0, 0, 1]] 100 [1, 0, 0])]"
    by code_simp
  have c2: "fst (delete_station example_float example_gui (Some 0)) = Done" by code_simp
  have c3: "map (\<lambda>(k, e). (k, station_ids e, line_actor e))
        (lines (snd (delete_station example_float example_gui (Some 0))))
       = [(1, [''Station 1'', ''Station 2'', ''Station 3''],
           Some (Line_actor [[20, 0, 5], [0, 0, 1]] 50 [1, 0, 0]))]"
    by code_simp
  show ?thesis
    using delete_station_cascade [where sid_text = "''1''" and sid = 1 and m = example_mountain
        and pyfloat = example_float and s = example_gui and row = 0] h1 c1 c2 c3
    by blast
qed

text \<open>
  In gui.py, after Station 1 is deleted, the line L still lists Station 1; after Station 2
  is deleted as well, L is no longer in the registry but its row is still in the line
  table.  In mountain.py, a line whose list \<open>1, 1, 2, 3\<close> was typed into the line table
  still lists station 1 after station 1 is deleted; and a line whose list \<open>1, 2, 9\<close> was
  typed there, 9 not being a station, is kept after station 1 is deleted although only one
  of its two references, station 2, resolves.
\<close>

theorem delete_station_reference_kept_counterexample:
  "map (name \<circ> snd) (stations (snd (delete_station example_float example_gui (Some 0))))
     = [''Station 2'', ''Station 3'']
   \<and> map (station_ids \<circ> snd) (lines (snd (delete_station example_float example_gui (Some 0))))
     = [[''Station 1'', ''Station 2'', ''Station 3'']]
   \<and> lines (snd (delete_station example_float
               (snd (delete_station example_float example_gui (Some 0))) (Some 0))) = []
   \<and> line_table (snd (delete_station example_float
               (snd (delete_station example_float example_gui (Some 0))) (Some 0)))
     = [(Some ''L'', Some ''Station 1, Station 2, Station 3'', Some ''#FF0000'')]
   \<and> map (station_ids_m \<circ> snd)
       (train_lines (snd (line_cell_changed example_mountain 1 (Some ''0'') (Some ''1, 1, 2, 3''))))
     = [[1, 1, 2, 3]]
   \<and> map (station_ids_m \<circ> snd)
       (train_lines (snd (delete_station_m
          (snd (line_cell_changed example_mountain 1 (Some ''0'') (Some ''1, 1, 2, 3'')))
          (Some ''1''))))
     = [[1, 2, 3]]
   \<and> map (station_ids_m \<circ> snd)
       (train_lines (snd (line_cell_changed example_mountain 1 (Some ''0'') (Some ''1, 2, 9''))))
     = [[1, 2, 9]]
   \<and> map (station_ids_m \<circ> snd)
       (train_lines (snd (delete_station_m
          (snd (line_cell_changed example_mountain 1 (Some ''0'') (Some ''1, 2, 9'')))
          (Some ''1''))))
     = [[2, 9]]
   \<and> map fst
       (stations_m (snd (delete_station_m
          (snd (line_cell_changed example_mountain 1 (Some ''0'') (Some ''1, 2, 9'')))
          (Some ''1''))))
     = [2, 3]
   \<and> known_coords
       (stations_m (snd (delete_station_m
          (snd (line_cell_changed example_mountain 1 (Some ''0'') (Some ''1, 2, 9'')))
          (Some ''1''))))
       [2, 9]
     = [[20, 0, 5]]"
  by code_simp


section \<open>The example states are states of a session\<close>

lemma example_gui_reached:
  "run example_float example_fmt (Some example_dem)
     [Pick (Some (10, 5, 0)), Pick (Some (20, 0, 0)), Pick (Some (0, 0, 0)),
      Add_line (Some (''L'', [''Station 1'', ''Station 2'', ''Station 3''], [1, 0, 0]))]
   = example_gui"
  by code_simp

lemma example_mountain_reached:
  "run_m example_float (Some example_dem)
     [Pick_m (Some (10, 5, 0)), Pick_m (Some (20, 0, 0)), Pick_m (Some (0, 0, 0)),
      Add_line_m (Some [1, 2, 3]) [1, 0, 0]]
   = example_mountain"
  by code_simp

end
